theory Spec2Isabelle
  imports Main "HOL-Library.Word"
begin

section \<open>JavaScript strings\<close>

text \<open>
  A JavaScript string is a sequence of UTF-16 code units; \<open>length\<close> counts code units,
  as \<^verbatim>\<open>value.length\<close> does. ASCII literals of the source are written \<open>js ''...''\<close>.
\<close>

type_synonym jschar = "16 word"
type_synonym jsstring = "jschar list"

definition cu :: "char \<Rightarrow> jschar" where
  "cu c = of_nat (of_char c)"

definition js :: "string \<Rightarrow> jsstring" where
  "js s = map cu s"

text \<open>
  The code units that \<^verbatim>\<open>String.prototype.trim\<close> removes and that the class \<^verbatim>\<open>\s\<close>
  of a regular expression matches (WhiteSpace and LineTerminator of ECMAScript; the two
  sets are the same).
\<close>

definition is_space :: "jschar \<Rightarrow> bool" where
  "is_space c \<longleftrightarrow>
     c \<in> {0x09, 0x0A, 0x0B, 0x0C, 0x0D, 0x20, 0xA0, 0x1680, 0x2028, 0x2029, 0x202F,
          0x205F, 0x3000, 0xFEFF}
     \<or> (0x2000 \<le> c \<and> c \<le> 0x200A)"

definition trim :: "jsstring \<Rightarrow> jsstring" where
  "trim s = rev (dropWhile is_space (rev (dropWhile is_space s)))"

text \<open>
  \<^verbatim>\<open>a || b\<close> on strings that may be \<^verbatim>\<open>null\<close> or \<^verbatim>\<open>undefined\<close> (\<open>None\<close>): the left
  operand when it is truthy, that is a non-empty string, the right operand otherwise.
\<close>

fun js_or :: "jsstring option \<Rightarrow> jsstring option \<Rightarrow> jsstring option" where
  "js_or (Some s) b = (if s = [] then b else Some s)"
| "js_or None b = b"

fun js_or_str :: "jsstring option \<Rightarrow> jsstring \<Rightarrow> jsstring" where
  "js_or_str (Some s) d = (if s = [] then d else s)"
| "js_or_str None d = d"

section \<open>The regular expressions of the source\<close>

text \<open>
  Every regular-expression literal of the validator is a sequence of character classes,
  each with a repetition range, between \<^verbatim>\<open>^\<close> and \<^verbatim>\<open>$\<close> and without flags. Such an
  expression is a list of (class, least count, greatest count); \<open>regex_test\<close> is
  \<^verbatim>\<open>RegExp.prototype.test\<close> on it: some split of the whole string into runs, one per
  class and of an allowed length, exists.
\<close>

type_synonym quantified = "(jschar \<Rightarrow> bool) \<times> nat \<times> nat option"

primrec regex_test :: "quantified list \<Rightarrow> jsstring \<Rightarrow> bool" where
  "regex_test [] s = (s = [])"
| "regex_test (q # qs) s =
     (case q of (cls, lo, hi) \<Rightarrow>
        list_ex (\<lambda>k. list_all cls (take k s) \<and> regex_test qs (drop k s))
          [lo ..< Suc (case hi of None \<Rightarrow> length s | Some h \<Rightarrow> min h (length s))])"

definition is_digit :: "jschar \<Rightarrow> bool" where
  "is_digit c \<longleftrightarrow> cu CHR ''0'' \<le> c \<and> c \<le> cu CHR ''9''"

definition not_space_at :: "jschar \<Rightarrow> bool" where
  "not_space_at c \<longleftrightarrow> \<not> is_space c \<and> c \<noteq> cu CHR ''@''"

text \<open>\<^verbatim>\<open>/^[^\s@]+@[^\s@]+\.[^\s@]+$/\<close>\<close>

definition emailRegex :: "quantified list" where
  "emailRegex =
     [(not_space_at, 1, None), (\<lambda>c. c = cu CHR ''@'', 1, Some 1),
      (not_space_at, 1, None), (\<lambda>c. c = cu CHR ''.'', 1, Some 1),
      (not_space_at, 1, None)]"

text \<open>\<^verbatim>\<open>/^[\+]?[1-9][\d]{0,15}$/\<close>\<close>

definition phoneRegex :: "quantified list" where
  "phoneRegex =
     [(\<lambda>c. c = cu CHR ''+'', 0, Some 1),
      (\<lambda>c. cu CHR ''1'' \<le> c \<and> c \<le> cu CHR ''9'', 1, Some 1),
      (is_digit, 0, Some 15)]"

text \<open>The class of \<^verbatim>\<open>/[\s\-\(\)]/g\<close>, and \<^verbatim>\<open>value.replace(/[\s\-\(\)]/g, '')\<close>.\<close>

definition phone_separator :: "jschar \<Rightarrow> bool" where
  "phone_separator c \<longleftrightarrow>
     is_space c \<or> c = cu CHR ''-'' \<or> c = cu CHR ''('' \<or> c = cu CHR '')''"

definition strip_separators :: "jsstring \<Rightarrow> jsstring" where
  "strip_separators v = filter (\<lambda>c. \<not> phone_separator c) v"

section \<open>parseInt\<close>

text \<open>
  \<^verbatim>\<open>parseInt(s)\<close> with no radix: leading white space is skipped, a sign is read, a
  prefix \<^verbatim>\<open>0x\<close> or \<^verbatim>\<open>0X\<close> selects radix 16, and the longest run of digits is the
  value; \<open>None\<close> is \<^verbatim>\<open>NaN\<close>. The result is kept as an exact integer: it is only ever
  compared with a string length, and rounding to a double is monotone and exact on
  every possible length.
\<close>

definition digit_of :: "jschar \<Rightarrow> nat" where
  "digit_of c =
     (if cu CHR ''0'' \<le> c \<and> c \<le> cu CHR ''9'' then unat c - 48
      else if cu CHR ''a'' \<le> c \<and> c \<le> cu CHR ''z'' then unat c - 87
      else if cu CHR ''A'' \<le> c \<and> c \<le> cu CHR ''Z'' then unat c - 55
      else 36)"

definition parseInt :: "jsstring \<Rightarrow> int option" where
  "parseInt s =
     (let S = dropWhile is_space s;
          sign = (if S \<noteq> [] \<and> hd S = cu CHR ''-'' then - 1 else 1 :: int);
          S1 = (if S \<noteq> [] \<and> (hd S = cu CHR ''+'' \<or> hd S = cu CHR ''-'') then tl S else S);
          hex = (take 2 S1 = js ''0x'' \<or> take 2 S1 = js ''0X'');
          R = (if hex then 16 else 10 :: nat);
          S2 = (if hex then drop 2 S1 else S1);
          Z = takeWhile (\<lambda>c. digit_of c < R) S2
      in if Z = [] then None
         else Some (sign * int (foldl (\<lambda>a c. a * R + digit_of c) 0 Z)))"

section \<open>Validation rules\<close>

text \<open>
  A rule object \<^verbatim>\<open>{type, value, message}\<close>: the constructor is the \<^verbatim>\<open>type\<close> tag, the
  last argument the message. \<^verbatim>\<open>getValidationRules\<close> builds no other tag, so the
  \<^verbatim>\<open>default\<close> branch of \<^verbatim>\<open>runValidationRule\<close> is never taken. A compiled pattern is the
  predicate its \<^verbatim>\<open>test\<close> method computes (it is built without flags, so \<^verbatim>\<open>test\<close> keeps
  no state).
\<close>

datatype rule =
    Required jsstring
  | Email jsstring
  | MinLength "int option" jsstring
  | Pattern "jsstring \<Rightarrow> bool" jsstring
  | Phone jsstring

datatype rule_tag = TRequired | TEmail | TMinLength | TPattern | TPhone

fun rule_type :: "rule \<Rightarrow> rule_tag" where
  "rule_type (Required m) = TRequired"
| "rule_type (Email m) = TEmail"
| "rule_type (MinLength n m) = TMinLength"
| "rule_type (Pattern re m) = TPattern"
| "rule_type (Phone m) = TPhone"

fun rule_message :: "rule \<Rightarrow> jsstring" where
  "rule_message (Required m) = m"
| "rule_message (Email m) = m"
| "rule_message (MinLength n m) = m"
| "rule_message (Pattern re m) = m"
| "rule_message (Phone m) = m"

record vresult =
  res_isValid :: bool
  res_message :: jsstring

fun runValidationRule :: "rule \<Rightarrow> jsstring \<Rightarrow> vresult" where
  "runValidationRule (Required m) v =
     \<lparr>res_isValid = (length v > 0), res_message = m\<rparr>"
| "runValidationRule (Email m) v =
     \<lparr>res_isValid = (v = [] \<or> regex_test emailRegex v), res_message = m\<rparr>"
| "runValidationRule (MinLength n m) v =
     \<lparr>res_isValid = (v = [] \<or> (case n of None \<Rightarrow> False | Some k \<Rightarrow> int (length v) \<ge> k)),
      res_message = m\<rparr>"
| "runValidationRule (Pattern re m) v =
     \<lparr>res_isValid = (v = [] \<or> re v), res_message = m\<rparr>"
| "runValidationRule (Phone m) v =
     \<lparr>res_isValid = (v = [] \<or> regex_test phoneRegex (strip_separators v)),
      res_message = m\<rparr>"

section \<open>The document\<close>

text \<open>
  DOM nodes live in a store, addressed by number, so that two references to one node
  alias as they do in the browser. A node carries the attributes and properties that the
  validator reads or writes: \<open>type_prop\<close>, \<open>name_prop\<close>, \<open>id_prop\<close>, \<open>placeholder\<close> and
  \<open>value_prop\<close> are the properties \<^verbatim>\<open>type\<close>, \<^verbatim>\<open>name\<close>, \<^verbatim>\<open>id\<close>, \<^verbatim>\<open>placeholder\<close> and
  \<^verbatim>\<open>value\<close>; \<open>label_text\<close> is \<^verbatim>\<open>labels?.[0]?.textContent\<close>; \<open>display\<close> is
  \<^verbatim>\<open>style.display\<close>; \<open>classList\<close> holds the tokens of the \<^verbatim>\<open>class\<close> attribute.
  An assignment to \<^verbatim>\<open>textContent\<close> is modelled on the text alone. \<open>browser_focusable\<close>
  says whether the browser would focus the element as far as this depends on what the
  model does not hold (the kind of element, the style sheets, an inert subtree, a disabled
  fieldset).
\<close>

type_synonym addr = nat

record node =
  tagName :: jsstring
  attributes :: "jsstring \<rightharpoonup> jsstring"
  type_prop :: jsstring
  name_prop :: jsstring
  id_prop :: jsstring
  placeholder :: "jsstring option"
  label_text :: "jsstring option"
  value_prop :: jsstring
  defaultValue :: jsstring
  classList :: "jsstring list"
  display :: jsstring
  textContent :: jsstring
  disabled :: bool
  browser_focusable :: bool
  parentNode :: "addr option"
  childNodes :: "addr list"

definition hasAttribute :: "node \<Rightarrow> jsstring \<Rightarrow> bool" where
  "hasAttribute n a \<longleftrightarrow> attributes n a \<noteq> None"

definition getAttribute :: "node \<Rightarrow> jsstring \<Rightarrow> jsstring option" where
  "getAttribute n a = attributes n a"

text \<open>An attribute value used as a string; \<^verbatim>\<open>null\<close> converts to the string "null".\<close>

definition to_string :: "jsstring option \<Rightarrow> jsstring" where
  "to_string v = (case v of None \<Rightarrow> js ''null'' | Some s \<Rightarrow> s)"

definition classList_add :: "jsstring \<Rightarrow> node \<Rightarrow> node" where
  "classList_add c n =
     n\<lparr>classList := (if c \<in> set (classList n) then classList n else classList n @ [c])\<rparr>"

definition classList_remove :: "jsstring list \<Rightarrow> node \<Rightarrow> node" where
  "classList_remove cs n = n\<lparr>classList := filter (\<lambda>c. c \<notin> set cs) (classList n)\<rparr>"

definition error_class :: jsstring where
  "error_class = js ''form__input--error''"

definition success_class :: jsstring where
  "success_class = js ''form__input--success''"

section \<open>Deriving the rules of a field\<close>

datatype error = SyntaxError | TypeError

text \<open>
  \<^verbatim>\<open>new RegExp(source)\<close> is the browser's: it is a parameter \<open>RegExp\<close> of the model, which
  gives the predicate of the compiled expression or the exception raised.
\<close>

type_synonym regexp_ctor = "jsstring \<Rightarrow> error + (jsstring \<Rightarrow> bool)"

definition getRequiredMessage :: "node \<Rightarrow> jsstring" where
  "getRequiredMessage input =
     (let fieldName =
            js_or_str
              (js_or
                 (js_or (getAttribute input (js ''data-field-name''))
                        (map_option (\<lambda>t. trim (remove1 (cu CHR ''*'') t)) (label_text input)))
                 (placeholder input))
              (js ''This field'')
      in fieldName @ js '' is required'')"

definition field_identifier :: "node \<Rightarrow> jsstring" where
  "field_identifier input = js_or_str (Some (name_prop input)) (id_prop input)"

definition getValidationRules :: "regexp_ctor \<Rightarrow> node \<Rightarrow> error + rule list" where
  "getValidationRules RegExp input =
     (let rules0 = [];
          rules1 = (if hasAttribute input (js ''required'')
                    then rules0 @ [Required (getRequiredMessage input)] else rules0);
          rules2 = (if type_prop input = js ''email''
                    then rules1 @ [Email (js ''Please enter a valid email address'')]
                    else rules1);
          rules3 = (if hasAttribute input (js ''minlength'')
                    then rules2 @
                      [MinLength (parseInt (to_string (getAttribute input (js ''minlength''))))
                         (js ''Minimum '' @ to_string (getAttribute input (js ''minlength''))
                            @ js '' characters required'')]
                    else rules2)
      in case (if hasAttribute input (js ''pattern'')
               then (case RegExp (to_string (getAttribute input (js ''pattern''))) of
                       Inl e \<Rightarrow> Inl e
                     | Inr re \<Rightarrow>
                         Inr (rules3 @
                           [Pattern re
                              (js_or_str (getAttribute input (js ''data-pattern-message''))
                                 (js ''Please match the requested format''))]))
               else Inr rules3) of
           Inl e \<Rightarrow> Inl e
         | Inr rules4 \<Rightarrow>
             Inr (if field_identifier input = js ''phone''
                  then rules4 @ [Phone (js ''Please enter a valid phone number'')]
                  else rules4))"

section \<open>The validator's state\<close>

text \<open>
  A \<^verbatim>\<open>fieldData\<close> object is mutable and shared between the form's \<^verbatim>\<open>Map\<close> and the
  listeners of its element, so field objects live in a store of their own. A \<^verbatim>\<open>Map\<close> is
  a list of (key, value) in insertion order. A \<^verbatim>\<open>formData\<close> object is written only
  while it is built.
\<close>

type_synonym fref = nat

record fieldData =
  element :: addr
  isValid :: bool
  rules :: "rule list"
  errorElement :: addr
  successElement :: addr

record formData =
  form_element :: addr
  form_fields :: "(jsstring \<times> fref) list"
  form_isValid :: bool

text \<open>
  A listener is recorded by the call it makes. The listener that \<^verbatim>\<open>debounce\<close> wraps is
  recorded with its delay; a timer task is the callback passed to \<^verbatim>\<open>setTimeout\<close>.
\<close>

datatype handler =
    OnBlurValidate fref
  | OnInputClear fref
  | OnInputDebouncedValidate fref nat
  | OnSubmit formData

datatype task =
    FinishSubmit formData "addr option"
  | ModalActivate addr
  | ModalDeactivate addr
  | ModalRemove addr

record page =
  nodes :: "addr \<Rightarrow> node"
  next_node :: addr
  document_root :: addr
  body :: addr
  field_objs :: "fref \<Rightarrow> fieldData"
  next_field :: fref
  forms :: "formData list"
  listeners :: "(addr \<times> jsstring \<times> handler) list"
  timers :: "(nat \<times> task) list"
  activeElement :: "addr option"

definition upd_node :: "addr \<Rightarrow> (node \<Rightarrow> node) \<Rightarrow> page \<Rightarrow> page" where
  "upd_node a f s = s\<lparr>nodes := (nodes s)(a := f (nodes s a))\<rparr>"

definition upd_field :: "fref \<Rightarrow> (fieldData \<Rightarrow> fieldData) \<Rightarrow> page \<Rightarrow> page" where
  "upd_field r f s = s\<lparr>field_objs := (field_objs s)(r := f (field_objs s r))\<rparr>"

section \<open>Field operations\<close>

definition clearFieldState :: "page \<Rightarrow> fref \<Rightarrow> page" where
  "clearFieldState s r =
     (let fd = field_objs s r;
          s1 = upd_node (element fd) (classList_remove [error_class, success_class]) s;
          s2 = upd_node (errorElement fd) (\<lambda>n. n\<lparr>display := js ''none''\<rparr>) s1;
          s3 = upd_node (successElement fd) (\<lambda>n. n\<lparr>display := js ''none''\<rparr>) s2
      in upd_field r (\<lambda>d. d\<lparr>isValid := False\<rparr>) s3)"

definition setFieldError :: "page \<Rightarrow> fref \<Rightarrow> jsstring \<Rightarrow> page" where
  "setFieldError s r message =
     (let fd = field_objs s r;
          s1 = upd_node (element fd) (classList_add error_class) s;
          s2 = upd_node (element fd) (classList_remove [success_class]) s1;
          s3 = upd_node (errorElement fd) (\<lambda>n. n\<lparr>textContent := message\<rparr>) s2;
          s4 = upd_node (errorElement fd) (\<lambda>n. n\<lparr>display := js ''block''\<rparr>) s3
      in upd_field r (\<lambda>d. d\<lparr>isValid := False\<rparr>) s4)"

definition setFieldSuccess :: "page \<Rightarrow> fref \<Rightarrow> page" where
  "setFieldSuccess s r =
     (let fd = field_objs s r;
          s1 = upd_node (element fd) (classList_add success_class) s;
          s2 = upd_node (element fd) (classList_remove [error_class]) s1;
          s3 = upd_node (successElement fd) (\<lambda>n. n\<lparr>display := js ''block''\<rparr>) s2
      in upd_field r (\<lambda>d. d\<lparr>isValid := True\<rparr>) s3)"

text \<open>
  The loop of \<^verbatim>\<open>validateField\<close> over the rules: the message of the first rule whose
  result is not valid, at which the loop returns, or \<open>None\<close> when the loop runs to its end.
\<close>

fun first_failure :: "rule list \<Rightarrow> jsstring \<Rightarrow> jsstring option" where
  "first_failure [] v = None"
| "first_failure (rule # rest) v =
     (let result = runValidationRule rule v
      in if \<not> res_isValid result then Some (res_message result)
         else first_failure rest v)"

definition validateField :: "page \<Rightarrow> fref \<Rightarrow> page \<times> bool" where
  "validateField s r =
     (let fd = field_objs s r;
          v = trim (value_prop (nodes s (element fd)));
          s1 = clearFieldState s r
      in case first_failure (rules fd) v of
           Some message \<Rightarrow> (setFieldError s1 r message, False)
         | None \<Rightarrow> (setFieldSuccess s1 r, True))"

section \<open>DOM queries and updates\<close>

text \<open>
  The four selectors of the source: \<^verbatim>\<open>.class\<close>, a list of tag names,
  \<^verbatim>\<open>form[data-validate]\<close> and \<^verbatim>\<open>button[type="submit"]\<close>. Tag names are kept in lower
  case. In a document of the browser the value of the \<^verbatim>\<open>type\<close> attribute is compared
  without regard to the case of ASCII letters.
\<close>

definition ascii_lower :: "jschar \<Rightarrow> jschar" where
  "ascii_lower c = (if cu CHR ''A'' \<le> c \<and> c \<le> cu CHR ''Z'' then c + 32 else c)"

datatype selector = ByClass jsstring | ByTags "jsstring list" | FormDataValidate | SubmitButton

fun matches :: "selector \<Rightarrow> node \<Rightarrow> bool" where
  "matches (ByClass c) n = (c \<in> set (classList n))"
| "matches (ByTags ts) n = (tagName n \<in> set ts)"
| "matches FormDataValidate n =
     (tagName n = js ''form'' \<and> hasAttribute n (js ''data-validate''))"
| "matches SubmitButton n =
     (tagName n = js ''button''
      \<and> map_option (map ascii_lower) (getAttribute n (js ''type'')) = Some (js ''submit''))"

text \<open>
  The descendants of a node in document order. The depth of the walk is bounded by the
  number of nodes allocated, which is enough for every tree.
\<close>

fun descendants :: "nat \<Rightarrow> (addr \<Rightarrow> node) \<Rightarrow> addr \<Rightarrow> addr list" where
  "descendants 0 ns a = []"
| "descendants (Suc k) ns a = concat (map (\<lambda>c. c # descendants k ns c) (childNodes (ns a)))"

definition querySelectorAll :: "page \<Rightarrow> addr \<Rightarrow> selector \<Rightarrow> addr list" where
  "querySelectorAll s a sel =
     filter (\<lambda>i. matches sel (nodes s i)) (descendants (next_node s) (nodes s) a)"

definition querySelector :: "page \<Rightarrow> addr \<Rightarrow> selector \<Rightarrow> addr option" where
  "querySelector s a sel = (case querySelectorAll s a sel of [] \<Rightarrow> None | i # _ \<Rightarrow> Some i)"

definition new_node :: "jsstring \<Rightarrow> node" where
  "new_node tag =
     \<lparr>tagName = tag, attributes = Map.empty, type_prop = [], name_prop = [], id_prop = [],
      placeholder = None, label_text = None, value_prop = [], defaultValue = [],
      classList = [], display = [], textContent = [], disabled = False,
      browser_focusable = False, parentNode = None, childNodes = []\<rparr>"

definition createElement :: "page \<Rightarrow> jsstring \<Rightarrow> page \<times> addr" where
  "createElement s tag =
     (s\<lparr>nodes := (nodes s)(next_node s := new_node tag), next_node := Suc (next_node s)\<rparr>,
      next_node s)"

definition removeChild :: "page \<Rightarrow> addr \<Rightarrow> addr \<Rightarrow> page" where
  "removeChild s p c =
     upd_node c (\<lambda>n. n\<lparr>parentNode := None\<rparr>)
       (upd_node p (\<lambda>n. n\<lparr>childNodes := remove1 c (childNodes n)\<rparr>) s)"

definition appendChild :: "page \<Rightarrow> addr \<Rightarrow> addr \<Rightarrow> page" where
  "appendChild s p c =
     (let s1 = (case parentNode (nodes s c) of None \<Rightarrow> s | Some old \<Rightarrow> removeChild s old c);
          s2 = upd_node p (\<lambda>n. n\<lparr>childNodes := childNodes n @ [c]\<rparr>) s1
      in upd_node c (\<lambda>n. n\<lparr>parentNode := Some p\<rparr>) s2)"

text \<open>
  \<^verbatim>\<open>element.focus()\<close> does nothing unless the element is focusable: a control that is
  disabled or of type \<^verbatim>\<open>hidden\<close>, or an element that is not rendered, keeps the focus
  where it is. An element is rendered when it is connected to the document and neither
  it nor an ancestor has the inline style \<^verbatim>\<open>display: none\<close> (the walk up is bounded by
  the number of nodes allocated); what the style sheets decide is part of
  \<open>browser_focusable\<close>.
\<close>

fun being_rendered :: "nat \<Rightarrow> page \<Rightarrow> addr \<Rightarrow> bool" where
  "being_rendered 0 s a = False"
| "being_rendered (Suc k) s a =
     (display (nodes s a) \<noteq> js ''none''
      \<and> (case parentNode (nodes s a) of
             None \<Rightarrow> a = document_root s
           | Some p \<Rightarrow> being_rendered k s p))"

definition focusable :: "page \<Rightarrow> addr \<Rightarrow> bool" where
  "focusable s a \<longleftrightarrow>
     browser_focusable (nodes s a) \<and> \<not> disabled (nodes s a)
     \<and> type_prop (nodes s a) \<noteq> js ''hidden''
     \<and> being_rendered (next_node s) s a"

text \<open>
  When the focus moves, the element that loses it gets a \<^verbatim>\<open>blur\<close> event before the
  move is complete, and its \<^verbatim>\<open>blur\<close> listeners run in the order of their registration.
  The only \<^verbatim>\<open>blur\<close> listeners of the validator are those of \<^verbatim>\<open>initializeField\<close>, which
  call \<^verbatim>\<open>validateField\<close>.
\<close>

definition blur_listeners :: "page \<Rightarrow> addr \<Rightarrow> fref list" where
  "blur_listeners s a =
     concat (map (\<lambda>(b, ev, h).
                   case h of
                     OnBlurValidate r \<Rightarrow> if b = a \<and> ev = js ''blur'' then [r] else []
                   | _ \<Rightarrow> [])
               (listeners s))"

definition dispatch_blur :: "page \<Rightarrow> addr \<Rightarrow> page" where
  "dispatch_blur s a = fold (\<lambda>r t. fst (validateField t r)) (blur_listeners s a) s"

definition focus :: "page \<Rightarrow> addr \<Rightarrow> page" where
  "focus s a =
     (if focusable s a \<and> activeElement s \<noteq> Some a
      then (case activeElement s of
              None \<Rightarrow> s
            | Some old \<Rightarrow> dispatch_blur s old)\<lparr>activeElement := Some a\<rparr>
      else s)"

definition setTimeout :: "page \<Rightarrow> task \<Rightarrow> nat \<Rightarrow> page" where
  "setTimeout s t delay = s\<lparr>timers := timers s @ [(delay, t)]\<rparr>"

definition addEventListener :: "page \<Rightarrow> addr \<Rightarrow> jsstring \<Rightarrow> handler \<Rightarrow> page" where
  "addEventListener s a ev h = s\<lparr>listeners := listeners s @ [(a, ev, h)]\<rparr>"

text \<open>
  \<^verbatim>\<open>form.reset()\<close>: every control of the form goes back to its default value.
\<close>

definition form_reset :: "page \<Rightarrow> addr \<Rightarrow> page" where
  "form_reset s form =
     fold (\<lambda>i. upd_node i (\<lambda>n. n\<lparr>value_prop := defaultValue n\<rparr>))
       (querySelectorAll s form (ByTags [js ''input'', js ''textarea'', js ''select''])) s"

section \<open>Initialization\<close>

definition createErrorElement :: "page \<Rightarrow> addr \<Rightarrow> page \<times> (error + addr)" where
  "createErrorElement s input =
     (case parentNode (nodes s input) of
        None \<Rightarrow> (s, Inl TypeError)
      | Some parent \<Rightarrow>
          (case querySelector s parent (ByClass (js ''form__error'')) of
             Some existing \<Rightarrow> (s, Inr existing)
           | None \<Rightarrow>
               (case createElement s (js ''div'') of (s1, errorEl) \<Rightarrow>
                  let s2 = upd_node errorEl (\<lambda>n. n\<lparr>classList := [js ''form__error'']\<rparr>) s1;
                      s3 = appendChild s2 parent errorEl
                  in (s3, Inr errorEl))))"

definition createSuccessElement :: "page \<Rightarrow> addr \<Rightarrow> page \<times> (error + addr)" where
  "createSuccessElement s input =
     (case parentNode (nodes s input) of
        None \<Rightarrow> (s, Inl TypeError)
      | Some parent \<Rightarrow>
          (case querySelector s parent (ByClass (js ''form__success'')) of
             Some existing \<Rightarrow> (s, Inr existing)
           | None \<Rightarrow>
               (case createElement s (js ''div'') of (s1, successEl) \<Rightarrow>
                  let s2 = upd_node successEl
                             (\<lambda>n. n\<lparr>classList := [js ''form__success'']\<rparr>) s1;
                      s3 = upd_node successEl
                             (\<lambda>n. n\<lparr>textContent := 0x2713 # js '' Looks good''\<rparr>) s2;
                      s4 = appendChild s3 parent successEl
                  in (s4, Inr successEl))))"

text \<open>
  \<^verbatim>\<open>Map.prototype.set\<close>: the value of a key already present is replaced where the key
  stands; a new key goes to the end.
\<close>

fun map_set :: "('k \<times> 'v) list \<Rightarrow> 'k \<Rightarrow> 'v \<Rightarrow> ('k \<times> 'v) list" where
  "map_set [] k v = [(k, v)]"
| "map_set ((k', v') # m) k v =
     (if k' = k then (k, v) # m else (k', v') # map_set m k v)"

text \<open>
  An exception leaves the state as it was when it was raised: every function that may
  raise returns the state reached together with the exception or the result.
\<close>

definition initializeField ::
  "regexp_ctor \<Rightarrow> page \<Rightarrow> formData \<Rightarrow> addr \<Rightarrow> page \<times> (error + formData)" where
  "initializeField RegExp s formData input =
     (case getValidationRules RegExp (nodes s input) of
        Inl e \<Rightarrow> (s, Inl e)
      | Inr rs \<Rightarrow>
          (case createErrorElement s input of
             (s1, Inl e) \<Rightarrow> (s1, Inl e)
           | (s1, Inr errorEl) \<Rightarrow>
               (case createSuccessElement s1 input of
                  (s2, Inl e) \<Rightarrow> (s2, Inl e)
                | (s2, Inr successEl) \<Rightarrow>
                    let r = next_field s2;
                        s3 = s2\<lparr>field_objs := (field_objs s2)
                                 (r := \<lparr>element = input, isValid = False, rules = rs,
                                        errorElement = errorEl, successElement = successEl\<rparr>),
                               next_field := Suc r\<rparr>;
                        s4 = addEventListener s3 input (js ''blur'') (OnBlurValidate r);
                        s5 = addEventListener s4 input (js ''input'') (OnInputClear r);
                        s6 = (if type_prop (nodes s5 input) = js ''email''
                              then addEventListener s5 input (js ''input'')
                                     (OnInputDebouncedValidate r 500)
                              else s5)
                    in (s6, Inr (formData\<lparr>form_fields :=
                                   map_set (form_fields formData)
                                     (field_identifier (nodes s6 input)) r\<rparr>)))))"

text \<open>The loop \<^verbatim>\<open>inputs.forEach(input => this.initializeField(formData, input))\<close>.\<close>

fun init_fields ::
  "regexp_ctor \<Rightarrow> page \<Rightarrow> formData \<Rightarrow> addr list \<Rightarrow> page \<times> (error + formData)" where
  "init_fields RegExp s formData [] = (s, Inr formData)"
| "init_fields RegExp s formData (input # inputs) =
     (case initializeField RegExp s formData input of
        (s1, Inl e) \<Rightarrow> (s1, Inl e)
      | (s1, Inr formData1) \<Rightarrow> init_fields RegExp s1 formData1 inputs)"

definition initializeForm :: "regexp_ctor \<Rightarrow> page \<Rightarrow> addr \<Rightarrow> page \<times> (error + unit)" where
  "initializeForm RegExp s form =
     (let formData = \<lparr>form_element = form, form_fields = [], form_isValid = False\<rparr>;
          inputs = querySelectorAll s form (ByTags [js ''input'', js ''textarea'', js ''select''])
      in case init_fields RegExp s formData inputs of
           (s1, Inl e) \<Rightarrow> (s1, Inl e)
         | (s1, Inr formData1) \<Rightarrow>
             let s2 = addEventListener s1 form (js ''submit'') (OnSubmit formData1)
             in (s2\<lparr>forms := forms s2 @ [formData1]\<rparr>, Inr ()))"

text \<open>The loop \<^verbatim>\<open>forms.forEach(form => this.initializeForm(form))\<close>.\<close>

fun init_forms :: "regexp_ctor \<Rightarrow> page \<Rightarrow> addr list \<Rightarrow> page \<times> (error + unit)" where
  "init_forms RegExp s [] = (s, Inr ())"
| "init_forms RegExp s (form # rest) =
     (case initializeForm RegExp s form of
        (s1, Inl e) \<Rightarrow> (s1, Inl e)
      | (s1, Inr u) \<Rightarrow> init_forms RegExp s1 rest)"

definition setupFormValidation :: "regexp_ctor \<Rightarrow> page \<Rightarrow> page \<times> (error + unit)" where
  "setupFormValidation RegExp s =
     init_forms RegExp s (querySelectorAll s (document_root s) FormDataValidate)"

text \<open>The constructor: \<^verbatim>\<open>this.forms = []; this.init()\<close>.\<close>

definition new_FormValidator :: "regexp_ctor \<Rightarrow> page \<Rightarrow> page \<times> (error + unit)" where
  "new_FormValidator RegExp s = setupFormValidation RegExp (s\<lparr>forms := []\<rparr>)"

section \<open>Form validation and submission\<close>

text \<open>
  \<^verbatim>\<open>formData.fields.forEach\<close> in \<^verbatim>\<open>validateForm\<close>, with the local variable
  \<^verbatim>\<open>isValid\<close> as the accumulator \<open>valid\<close>.
\<close>

fun validate_fields :: "page \<Rightarrow> fref list \<Rightarrow> bool \<Rightarrow> page \<times> bool" where
  "validate_fields s [] valid = (s, valid)"
| "validate_fields s (r # rs) valid =
     (case validateField s r of
        (s1, ok) \<Rightarrow> validate_fields s1 rs (if \<not> ok then False else valid))"

definition validateForm :: "page \<Rightarrow> formData \<Rightarrow> page \<times> bool" where
  "validateForm s formData = validate_fields s (map snd (form_fields formData)) True"

text \<open>
  The modal is a new \<^verbatim>\<open>div\<close> of class \<^verbatim>\<open>modal\<close>; the markup of its content holds no
  form control and is left out.
\<close>

definition createSuccessModal :: "page \<Rightarrow> page \<times> addr" where
  "createSuccessModal s =
     (case createElement s (js ''div'') of
        (s1, modal) \<Rightarrow> (upd_node modal (\<lambda>n. n\<lparr>classList := [js ''modal'']\<rparr>) s1, modal))"

definition showSuccessMessage :: "page \<Rightarrow> addr \<Rightarrow> page" where
  "showSuccessMessage s form =
     (case createSuccessModal s of
        (s1, successModal) \<Rightarrow>
          let s2 = appendChild s1 (body s1) successModal;
              s3 = setTimeout s2 (ModalActivate successModal) 100
          in setTimeout s3 (ModalDeactivate successModal) 3000)"

definition submitForm :: "page \<Rightarrow> formData \<Rightarrow> page" where
  "submitForm s formData =
     (let form = form_element formData;
          submitBtn = querySelector s form SubmitButton;
          s1 = (case submitBtn of
                  None \<Rightarrow> s
                | Some b \<Rightarrow>
                    let originalText = textContent (nodes s b);
                        s' = upd_node b (\<lambda>n. n\<lparr>textContent := js ''Submitting...''\<rparr>) s
                    in upd_node b (\<lambda>n. n\<lparr>disabled := True\<rparr>) s')
      in setTimeout s1 (FinishSubmit formData submitBtn) 2000)"

text \<open>The callback that \<^verbatim>\<open>submitForm\<close> passes to \<^verbatim>\<open>setTimeout\<close>.\<close>

definition finish_submit :: "page \<Rightarrow> formData \<Rightarrow> addr option \<Rightarrow> page" where
  "finish_submit s formData submitBtn =
     (let form = form_element formData;
          s1 = showSuccessMessage s form;
          s2 = form_reset s1 form;
          s3 = fold (\<lambda>r t. clearFieldState t r) (map snd (form_fields formData)) s2
      in case submitBtn of
           None \<Rightarrow> s3
         | Some b \<Rightarrow>
             let s4 = upd_node b
                        (\<lambda>n. n\<lparr>textContent :=
                                 js_or_str (getAttribute n (js ''data-original-text''))
                                   (js ''Submit'')\<rparr>) s3
             in upd_node b (\<lambda>n. n\<lparr>disabled := False\<rparr>) s4)"

fun run_task :: "page \<Rightarrow> task \<Rightarrow> page" where
  "run_task s (FinishSubmit formData submitBtn) = finish_submit s formData submitBtn"
| "run_task s (ModalActivate m) = upd_node m (classList_add (js ''modal--active'')) s"
| "run_task s (ModalDeactivate m) =
     setTimeout (upd_node m (classList_remove [js ''modal--active'']) s) (ModalRemove m) 300"
| "run_task s (ModalRemove m) = removeChild s (body s) m"

text \<open>The timer at position \<open>i\<close> of the queue expires: it leaves the queue and runs.\<close>

definition fire_timer :: "page \<Rightarrow> nat \<Rightarrow> page" where
  "fire_timer s i =
     (if i < length (timers s)
      then run_task (s\<lparr>timers := take i (timers s) @ drop (Suc i) (timers s)\<rparr>)
             (snd (timers s ! i))
      else s)"

definition handleSubmit :: "page \<Rightarrow> formData \<Rightarrow> page" where
  "handleSubmit s formData =
     (case validateForm s formData of
        (s1, valid) \<Rightarrow>
          if valid then submitForm s1 formData
          else (case find (\<lambda>r. \<not> isValid (field_objs s1 r))
                       (map snd (form_fields formData)) of
                  Some firstInvalidField \<Rightarrow>
                    focus s1 (element (field_objs s1 firstInvalidField))
                | None \<Rightarrow> s1))"

section \<open>Properties stated about the validator\<close>

text \<open>
  The predicates and reference definitions below are used to state the properties; the
  example documents are the concrete inputs at which the properties are evaluated.
\<close>

text \<open>
  The error and success indicators of a field are not both visible: at least one of them
  has \<^verbatim>\<open>style.display = 'none'\<close>. The two CSS state classes are not both on the field
  element.
\<close>

definition indicators_exclusive :: "page \<Rightarrow> fref \<Rightarrow> bool" where
  "indicators_exclusive s r \<longleftrightarrow>
     display (nodes s (errorElement (field_objs s r))) = js ''none''
     \<or> display (nodes s (successElement (field_objs s r))) = js ''none''"

definition classes_exclusive :: "page \<Rightarrow> fref \<Rightarrow> bool" where
  "classes_exclusive s r \<longleftrightarrow>
     \<not> (error_class \<in> set (classList (nodes s (element (field_objs s r))))
        \<and> success_class \<in> set (classList (nodes s (element (field_objs s r)))))"

text \<open>
  The activating condition of each rule variant, and the declaration order of the
  variants, as the specification's table of rules gives them.
\<close>

fun spec_activates :: "node \<Rightarrow> rule_tag \<Rightarrow> bool" where
  "spec_activates input TRequired = hasAttribute input (js ''required'')"
| "spec_activates input TEmail = (type_prop input = js ''email'')"
| "spec_activates input TMinLength = hasAttribute input (js ''minlength'')"
| "spec_activates input TPattern = hasAttribute input (js ''pattern'')"
| "spec_activates input TPhone = (field_identifier input = js ''phone'')"

definition spec_rule_order :: "rule_tag list" where
  "spec_rule_order = [TRequired, TEmail, TMinLength, TPattern, TPhone]"

text \<open>
  The specification's reading of the phone rule: the value is empty, or what is left of it
  without white space, hyphens and parentheses is an optional \<open>+\<close>, one digit from 1 to 9
  and at most fifteen further digits, and nothing else.
\<close>

fun spec_phone_digits :: "jsstring \<Rightarrow> bool" where
  "spec_phone_digits [] = False"
| "spec_phone_digits (d # ds) =
     (cu CHR ''1'' \<le> d \<and> d \<le> cu CHR ''9'' \<and> list_all is_digit ds \<and> length ds \<le> 15)"

fun spec_phone_number :: "jsstring \<Rightarrow> bool" where
  "spec_phone_number [] = False"
| "spec_phone_number (c # cs) =
     (if c = cu CHR ''+'' then spec_phone_digits cs else spec_phone_digits (c # cs))"

definition spec_phone_pass :: "jsstring \<Rightarrow> bool" where
  "spec_phone_pass v \<longleftrightarrow>
     v = [] \<or>
     spec_phone_number
       (filter (\<lambda>c. \<not> (is_space c \<or> c = cu CHR ''-'' \<or> c = cu CHR ''('' \<or> c = cu CHR '')'')) v)"

text \<open>
  A field passes when no rule of it fails on its trimmed current value. The tracked fields
  of a form are the values of its \<^verbatim>\<open>Map\<close>, in insertion order.
\<close>

definition field_passes :: "page \<Rightarrow> fref \<Rightarrow> bool" where
  "field_passes s r \<longleftrightarrow>
     first_failure (rules (field_objs s r))
       (trim (value_prop (nodes s (element (field_objs s r))))) = None"

definition tracked :: "formData \<Rightarrow> fref list" where
  "tracked formData = map snd (form_fields formData)"

text \<open>
  The fields whose \<^verbatim>\<open>blur\<close> listeners run when the focus leaves the active element.
\<close>

definition blur_fields :: "page \<Rightarrow> fref list" where
  "blur_fields s = (case activeElement s of None \<Rightarrow> [] | Some old \<Rightarrow> blur_listeners s old)"

text \<open>
  The specification's description of \<^verbatim>\<open>FormState.isValid\<close>: true iff the \<^verbatim>\<open>isValid\<close>
  of every tracked field is true.
\<close>

definition spec_form_isValid :: "page \<Rightarrow> formData \<Rightarrow> bool" where
  "spec_form_isValid s formData \<longleftrightarrow>
     (form_isValid formData \<longleftrightarrow> list_all (\<lambda>r. isValid (field_objs s r)) (tracked formData))"

subsection \<open>Example documents\<close>

text \<open>
  A constructor of regular expressions that agrees with the browser's on the two sources
  the examples use: \<^verbatim>\<open>new RegExp("(")\<close> raises a SyntaxError, and
  \<^verbatim>\<open>new RegExp("[0-9]+").test(v)\<close> holds iff \<open>v\<close> contains a digit. No example
  compiles another source.
\<close>

definition example_RegExp :: regexp_ctor where
  "example_RegExp src = (if src = js ''[0-9]+'' then Inr (list_ex is_digit) else Inl SyntaxError)"

definition no_field :: fieldData where
  "no_field = \<lparr>element = 0, isValid = False, rules = [], errorElement = 0, successElement = 0\<rparr>"

text \<open>
  A page with one validated form: a required e-mail field, a phone field and a field
  without any rule, each in a wrapper of its own, and a submit button labelled
  "Register". \<open>example_ready\<close> is the state of the page once the validator is
  constructed (lemma \<open>example_initialised\<close> below): every field has got its two
  indicator elements.
\<close>

definition example_nodes :: "jsstring \<Rightarrow> addr \<Rightarrow> node" where
  "example_nodes email =
     (\<lambda>a. new_node [])
       (0 := (new_node (js ''body''))\<lparr>childNodes := [1]\<rparr>,
        1 := (new_node (js ''form''))
               \<lparr>attributes := [js ''data-validate'' \<mapsto> []],
                parentNode := Some 0, childNodes := [2, 4, 6, 8]\<rparr>,
        2 := (new_node (js ''div''))\<lparr>parentNode := Some 1, childNodes := [3]\<rparr>,
        3 := (new_node (js ''input''))
               \<lparr>attributes := [js ''required'' \<mapsto> []],
                type_prop := js ''email'', name_prop := js ''email'',
                placeholder := Some (js ''Email''), value_prop := email,
                browser_focusable := True, parentNode := Some 2\<rparr>,
        4 := (new_node (js ''div''))\<lparr>parentNode := Some 1, childNodes := [5]\<rparr>,
        5 := (new_node (js ''input''))
               \<lparr>type_prop := js ''tel'', name_prop := js ''phone'',
                value_prop := js ''(555) 123-4567'', browser_focusable := True,
                parentNode := Some 4\<rparr>,
        6 := (new_node (js ''div''))\<lparr>parentNode := Some 1, childNodes := [7]\<rparr>,
        7 := (new_node (js ''input''))
               \<lparr>type_prop := js ''text'', name_prop := js ''nick'',
                browser_focusable := True, parentNode := Some 6\<rparr>,
        8 := (new_node (js ''button''))
               \<lparr>attributes := [js ''type'' \<mapsto> js ''submit''],
                textContent := js ''Register'', browser_focusable := True,
                parentNode := Some 1\<rparr>)"

definition example_document :: "jsstring \<Rightarrow> page" where
  "example_document email =
     \<lparr>nodes = example_nodes email, next_node = 9, document_root = 0, body = 0,
      field_objs = (\<lambda>r. no_field),
      next_field = 0, forms = [], listeners = [], timers = [], activeElement = None\<rparr>"

definition example_form :: formData where
  "example_form =
     \<lparr>form_element = 1,
      form_fields = [(js ''email'', 0), (js ''phone'', 1), (js ''nick'', 2)],
      form_isValid = False\<rparr>"

definition error_div :: "addr \<Rightarrow> node" where
  "error_div parent =
     (new_node (js ''div''))\<lparr>classList := [js ''form__error''], parentNode := Some parent\<rparr>"

definition success_div :: "addr \<Rightarrow> node" where
  "success_div parent =
     (new_node (js ''div''))
       \<lparr>classList := [js ''form__success''], textContent := 0x2713 # js '' Looks good'',
        parentNode := Some parent\<rparr>"

definition example_ready :: "jsstring \<Rightarrow> page" where
  "example_ready email =
     \<lparr>nodes = (example_nodes email)
        (2 := (new_node (js ''div''))\<lparr>parentNode := Some 1, childNodes := [3, 9, 10]\<rparr>,
         4 := (new_node (js ''div''))\<lparr>parentNode := Some 1, childNodes := [5, 11, 12]\<rparr>,
         6 := (new_node (js ''div''))\<lparr>parentNode := Some 1, childNodes := [7, 13, 14]\<rparr>,
         9 := error_div 2, 10 := success_div 2,
         11 := error_div 4, 12 := success_div 4,
         13 := error_div 6, 14 := success_div 6),
      next_node = 15, document_root = 0, body = 0,
      field_objs = (\<lambda>r. no_field)
        (0 := \<lparr>element = 3, isValid = False,
                rules = [Required (js ''Email is required''),
                         Email (js ''Please enter a valid email address'')],
                errorElement = 9, successElement = 10\<rparr>,
         1 := \<lparr>element = 5, isValid = False,
                rules = [Phone (js ''Please enter a valid phone number'')],
                errorElement = 11, successElement = 12\<rparr>,
         2 := \<lparr>element = 7, isValid = False, rules = [],
                errorElement = 13, successElement = 14\<rparr>),
      next_field = 3,
      forms = [example_form],
      listeners =
        [(3, js ''blur'', OnBlurValidate 0), (3, js ''input'', OnInputClear 0),
         (3, js ''input'', OnInputDebouncedValidate 0 500),
         (5, js ''blur'', OnBlurValidate 1), (5, js ''input'', OnInputClear 1),
         (7, js ''blur'', OnBlurValidate 2), (7, js ''input'', OnInputClear 2),
         (1, js ''submit'', OnSubmit example_form)],
      timers = [], activeElement = None\<rparr>"

text \<open>
  A page whose form holds its two controls directly, so that one error element and one
  success element serve both fields: a required e-mail field holding \<^verbatim>\<open>bob\<close> and a
  field without rules. \<open>shared_ready\<close> is its state once the validator is constructed
  (lemma \<open>shared_initialised\<close> below).
\<close>

definition shared_nodes :: "addr \<Rightarrow> node" where
  "shared_nodes =
     (\<lambda>a. new_node [])
       (0 := (new_node (js ''body''))\<lparr>childNodes := [1]\<rparr>,
        1 := (new_node (js ''form''))
               \<lparr>attributes := [js ''data-validate'' \<mapsto> []],
                parentNode := Some 0, childNodes := [2, 3]\<rparr>,
        2 := (new_node (js ''input''))
               \<lparr>attributes := [js ''required'' \<mapsto> []],
                type_prop := js ''email'', name_prop := js ''email'',
                value_prop := js ''bob'', browser_focusable := True, parentNode := Some 1\<rparr>,
        3 := (new_node (js ''input''))
               \<lparr>type_prop := js ''text'', name_prop := js ''nick'',
                browser_focusable := True, parentNode := Some 1\<rparr>)"

definition shared_document :: page where
  "shared_document =
     \<lparr>nodes = shared_nodes, next_node = 4, document_root = 0, body = 0,
      field_objs = (\<lambda>r. no_field),
      next_field = 0, forms = [], listeners = [], timers = [], activeElement = None\<rparr>"

definition shared_form :: formData where
  "shared_form =
     \<lparr>form_element = 1, form_fields = [(js ''email'', 0), (js ''nick'', 1)],
      form_isValid = False\<rparr>"

definition shared_ready :: page where
  "shared_ready =
     \<lparr>nodes = shared_nodes
        (1 := (new_node (js ''form''))
                \<lparr>attributes := [js ''data-validate'' \<mapsto> []],
                 parentNode := Some 0, childNodes := [2, 3, 4, 5]\<rparr>,
         4 := error_div 1, 5 := success_div 1),
      next_node = 6, document_root = 0, body = 0,
      field_objs = (\<lambda>r. no_field)
        (0 := \<lparr>element = 2, isValid = False,
                rules = [Required (js ''This field is required''),
                         Email (js ''Please enter a valid email address'')],
                errorElement = 4, successElement = 5\<rparr>,
         1 := \<lparr>element = 3, isValid = False, rules = [],
                errorElement = 4, successElement = 5\<rparr>),
      next_field = 2,
      forms = [shared_form],
      listeners =
        [(2, js ''blur'', OnBlurValidate 0), (2, js ''input'', OnInputClear 0),
         (2, js ''input'', OnInputDebouncedValidate 0 500),
         (3, js ''blur'', OnBlurValidate 1), (3, js ''input'', OnInputClear 1),
         (1, js ''submit'', OnSubmit shared_form)],
      timers = [], activeElement = None\<rparr>"

text \<open>
  The example page with \<^verbatim>\<open>bob\<close> in its e-mail control, and that control disabled
  (lemma \<open>disabled_initialised\<close> below).
\<close>

definition disabled_document :: page where
  "disabled_document = upd_node 3 (\<lambda>n. n\<lparr>disabled := True\<rparr>) (example_document (js ''bob''))"

definition disabled_ready :: page where
  "disabled_ready = upd_node 3 (\<lambda>n. n\<lparr>disabled := True\<rparr>) (example_ready (js ''bob''))"

text \<open>
  A page with two validated forms. The second of the three fields of the first form carries
  the pattern \<^verbatim>\<open>(\<close>, which is not a regular expression. \<open>broken_after\<close> is the state
  in which the construction of the validator ends (lemma \<open>broken_initialised\<close> below).
\<close>

definition broken_nodes :: "addr \<Rightarrow> node" where
  "broken_nodes =
     (\<lambda>a. new_node [])
       (0 := (new_node (js ''body''))\<lparr>childNodes := [1, 5]\<rparr>,
        1 := (new_node (js ''form''))
               \<lparr>attributes := [js ''data-validate'' \<mapsto> []],
                parentNode := Some 0, childNodes := [2, 3, 4]\<rparr>,
        2 := (new_node (js ''input''))
               \<lparr>type_prop := js ''text'', name_prop := js ''nick'', parentNode := Some 1\<rparr>,
        3 := (new_node (js ''input''))
               \<lparr>attributes := [js ''pattern'' \<mapsto> js ''(''],
                type_prop := js ''text'', name_prop := js ''code'', parentNode := Some 1\<rparr>,
        4 := (new_node (js ''input''))
               \<lparr>type_prop := js ''text'', name_prop := js ''city'', parentNode := Some 1\<rparr>,
        5 := (new_node (js ''form''))
               \<lparr>attributes := [js ''data-validate'' \<mapsto> []],
                parentNode := Some 0, childNodes := [6]\<rparr>,
        6 := (new_node (js ''input''))
               \<lparr>type_prop := js ''text'', name_prop := js ''q'', parentNode := Some 5\<rparr>)"

definition broken_document :: page where
  "broken_document =
     \<lparr>nodes = broken_nodes, next_node = 7, document_root = 0, body = 0,
      field_objs = (\<lambda>r. no_field),
      next_field = 0, forms = [], listeners = [], timers = [], activeElement = None\<rparr>"

definition broken_form :: formData where
  "broken_form = \<lparr>form_element = 1, form_fields = [(js ''nick'', 0)], form_isValid = False\<rparr>"

definition broken_after :: page where
  "broken_after =
     \<lparr>nodes = broken_nodes
        (1 := (new_node (js ''form''))
                \<lparr>attributes := [js ''data-validate'' \<mapsto> []],
                 parentNode := Some 0, childNodes := [2, 3, 4, 7, 8]\<rparr>,
         7 := error_div 1, 8 := success_div 1),
      next_node = 9, document_root = 0, body = 0,
      field_objs = (\<lambda>r. no_field)
        (0 := \<lparr>element = 2, isValid = False, rules = [],
                errorElement = 7, successElement = 8\<rparr>),
      next_field = 1, forms = [],
      listeners = [(2, js ''blur'', OnBlurValidate 0), (2, js ''input'', OnInputClear 0)],
      timers = [], activeElement = None\<rparr>"

section \<open>Basic facts\<close>

lemma upd_node_simps [simp]:
  "nodes (upd_node a f s) = (nodes s)(a := f (nodes s a))"
  "field_objs (upd_node a f s) = field_objs s"
  "forms (upd_node a f s) = forms s"
  "listeners (upd_node a f s) = listeners s"
  "timers (upd_node a f s) = timers s"
  "activeElement (upd_node a f s) = activeElement s"
  "next_node (upd_node a f s) = next_node s"
  "next_field (upd_node a f s) = next_field s"
  "body (upd_node a f s) = body s"
  "document_root (upd_node a f s) = document_root s"
  by (simp_all add: upd_node_def)

lemma upd_field_simps [simp]:
  "nodes (upd_field r g s) = nodes s"
  "field_objs (upd_field r g s) = (field_objs s)(r := g (field_objs s r))"
  "forms (upd_field r g s) = forms s"
  "listeners (upd_field r g s) = listeners s"
  "timers (upd_field r g s) = timers s"
  "activeElement (upd_field r g s) = activeElement s"
  "next_node (upd_field r g s) = next_node s"
  "next_field (upd_field r g s) = next_field s"
  "body (upd_field r g s) = body s"
  "document_root (upd_field r g s) = document_root s"
  by (simp_all add: upd_field_def)

lemma cu_inj: "cu a = cu b \<longleftrightarrow> a = b"
proof
  assume h: "cu a = cu b"
  have u: "unat (cu c) = of_char c" for c
  proof -
    have "(of_char c :: nat) mod 256 < 256" by (rule mod_less_divisor) simp
    then have "(of_char c :: nat) < 256" by simp
    then have "(of_char c :: nat) < 65536" by linarith
    then show ?thesis unfolding cu_def by (simp add: unat_of_nat)
  qed
  from h have "unat (cu a) = unat (cu b)" by simp
  then have "(of_char a :: nat) = of_char b" by (simp add: u)
  then show "a = b" by simp
qed simp

lemma js_eq_iff [simp]: "js a = js b \<longleftrightarrow> a = b"
  unfolding js_def by (rule inj_map_eq_map) (simp add: inj_on_def cu_inj)

lemma class_names_differ [simp]: "error_class \<noteq> success_class" "success_class \<noteq> error_class" 
  by (simp_all add: error_class_def success_class_def)

lemma res_message_run [simp]: "res_message (runValidationRule rule v) = rule_message rule"
  by (cases rule) simp_all

lemma first_failure_find:
  "first_failure rs v =
     map_option rule_message (find (\<lambda>rule. \<not> res_isValid (runValidationRule rule v)) rs)"
  by (induction rs) (simp_all add: Let_def)

lemma field_ops_same_field [simp]:
  "element (field_objs (clearFieldState s r) q) = element (field_objs s q)"
  "errorElement (field_objs (clearFieldState s r) q) = errorElement (field_objs s q)"
  "successElement (field_objs (clearFieldState s r) q) = successElement (field_objs s q)"
  "rules (field_objs (clearFieldState s r) q) = rules (field_objs s q)"
  "element (field_objs (setFieldError s r m) q) = element (field_objs s q)"
  "errorElement (field_objs (setFieldError s r m) q) = errorElement (field_objs s q)"
  "successElement (field_objs (setFieldError s r m) q) = successElement (field_objs s q)"
  "rules (field_objs (setFieldError s r m) q) = rules (field_objs s q)"
  "element (field_objs (setFieldSuccess s r) q) = element (field_objs s q)"
  "errorElement (field_objs (setFieldSuccess s r) q) = errorElement (field_objs s q)"
  "successElement (field_objs (setFieldSuccess s r) q) = successElement (field_objs s q)"
  "rules (field_objs (setFieldSuccess s r) q) = rules (field_objs s q)"
  by (simp_all add: clearFieldState_def setFieldError_def setFieldSuccess_def Let_def)

lemma validateField_same_field [simp]:
  "element (field_objs (fst (validateField s r)) q) = element (field_objs s q)"
  "errorElement (field_objs (fst (validateField s r)) q) = errorElement (field_objs s q)"
  "successElement (field_objs (fst (validateField s r)) q) = successElement (field_objs s q)"
  "rules (field_objs (fst (validateField s r)) q) = rules (field_objs s q)"
  by (simp_all add: validateField_def Let_def split: option.splits)

lemma setFieldError_shows:
  "textContent (nodes (setFieldError s r m) (errorElement (field_objs s r))) = m"
  "display (nodes (setFieldError s r m) (errorElement (field_objs s r))) = js ''block''"
  "\<not> isValid (field_objs (setFieldError s r m) r)"
  "error_class \<in> set (classList (nodes (setFieldError s r m) (element (field_objs s r))))"
  "success_class \<notin> set (classList (nodes (setFieldError s r m) (element (field_objs s r))))"
  by (simp_all add: setFieldError_def Let_def classList_add_def classList_remove_def)

lemma setFieldSuccess_shows:
  "display (nodes (setFieldSuccess s r) (successElement (field_objs s r))) = js ''block''"
  "isValid (field_objs (setFieldSuccess s r) r)"
  "success_class \<in> set (classList (nodes (setFieldSuccess s r) (element (field_objs s r))))"
  "error_class \<notin> set (classList (nodes (setFieldSuccess s r) (element (field_objs s r))))"
  by (simp_all add: setFieldSuccess_def Let_def classList_add_def classList_remove_def)

lemma clearFieldState_hides:
  "display (nodes (clearFieldState s r) (errorElement (field_objs s r))) = js ''none''"
  "display (nodes (clearFieldState s r) (successElement (field_objs s r))) = js ''none''"
  by (simp_all add: clearFieldState_def Let_def)

lemma validateField_fail:
  assumes "first_failure (rules (field_objs s r)) (trim (value_prop (nodes s (element (field_objs s r))))) = Some m"
  shows "validateField s r = (setFieldError (clearFieldState s r) r m, False)"
  using assms by (simp add: validateField_def Let_def)

lemma validateField_pass:
  assumes "first_failure (rules (field_objs s r)) (trim (value_prop (nodes s (element (field_objs s r))))) = None"
  shows "validateField s r = (setFieldSuccess (clearFieldState s r) r, True)"
  using assms by (simp add: validateField_def Let_def)

section \<open>Rules and regular expressions\<close>

lemma getValidationRules_order:
  assumes "getValidationRules RegExp input = Inr rs"
  shows "map rule_type rs = filter (spec_activates input) spec_rule_order"
  using assms
  by (auto simp: getValidationRules_def spec_rule_order_def Let_def split: if_splits sum.splits)

lemma regex_test_bounded:
  "regex_test ((cls, lo, Some h) # qs) s \<longleftrightarrow>
     (\<exists>k. lo \<le> k \<and> k \<le> h \<and> k \<le> length s \<and> list_all cls (take k s) \<and> regex_test qs (drop k s))"
proof -
  have "set [lo ..< Suc (min h (length s))] = {k. lo \<le> k \<and> k \<le> h \<and> k \<le> length s}"
    by auto
  then show ?thesis
    by (simp add: list_ex_iff Bex_def conj_assoc del: upt_Suc set_upt)
qed

lemma regex_digits_tail:
  "regex_test [(is_digit, 0, Some 15)] s \<longleftrightarrow> list_all is_digit s \<and> length s \<le> 15"
proof
  assume "regex_test [(is_digit, 0, Some 15)] s"
  then obtain k where k: "k \<le> 15" "k \<le> length s" "list_all is_digit (take k s)" "drop k s = []"
    unfolding regex_test_bounded by auto
  then have "k = length s" by simp
  with k show "list_all is_digit s \<and> length s \<le> 15" by simp
next
  assume "list_all is_digit s \<and> length s \<le> 15"
  then show "regex_test [(is_digit, 0, Some 15)] s"
    unfolding regex_test_bounded by (intro exI[of _ "length s"]) simp
qed

lemma regex_phone_digits:
  "regex_test [(\<lambda>c. cu CHR ''1'' \<le> c \<and> c \<le> cu CHR ''9'', 1, Some 1), (is_digit, 0, Some 15)] s
     \<longleftrightarrow> spec_phone_digits s"
proof (cases s)
  case Nil
  then show ?thesis unfolding regex_test_bounded by simp
next
  case (Cons d ds)
  have "(\<exists>k. 1 \<le> k \<and> k \<le> 1 \<and> P k) \<longleftrightarrow> P (1::nat)" for P
    by (metis le_antisym order_refl)
  then show ?thesis
    unfolding regex_test_bounded[of _ 1 1] regex_digits_tail using Cons by simp
qed

lemma plus_not_digit: "\<not> (cu CHR ''1'' \<le> cu CHR ''+'')"
  by (simp add: cu_def)

lemma regex_phone_spec: "regex_test phoneRegex s \<longleftrightarrow> spec_phone_number s"
proof -
  have two: "(\<exists>k. 0 \<le> k \<and> k \<le> 1 \<and> P k) \<longleftrightarrow> P 0 \<or> P (1::nat)" for P
    by (metis le_0_eq le_Suc_eq One_nat_def zero_le)
  show ?thesis
  proof (cases s)
    case Nil
    then show ?thesis
      unfolding phoneRegex_def regex_test_bounded[of _ 0 1] regex_phone_digits two by simp
  next
    case (Cons c cs)
    then show ?thesis
      unfolding phoneRegex_def regex_test_bounded[of _ 0 1] regex_phone_digits two
      using plus_not_digit by auto
  qed
qed

section \<open>Validation of a single field\<close>

lemma trim_blank: "trim v = [] \<longleftrightarrow> (\<forall>c\<in>set v. is_space c)"
proof -
  have "trim v = [] \<longleftrightarrow> dropWhile is_space (rev (dropWhile is_space v)) = []"
    by (simp add: trim_def)
  also have "\<dots> \<longleftrightarrow> (\<forall>c\<in>set (dropWhile is_space v). is_space c)"
    by (simp add: dropWhile_eq_Nil_conv)
  also have "\<dots> \<longleftrightarrow> dropWhile is_space v = []"
    by (metis dropWhile_eq_Nil_conv dropWhile_idem)
  also have "\<dots> \<longleftrightarrow> (\<forall>c\<in>set v. is_space c)"
    by (simp add: dropWhile_eq_Nil_conv)
  finally show ?thesis .
qed

lemma first_failure_blank:
  "first_failure rs [] =
     map_option rule_message (find (\<lambda>rule. rule_type rule = TRequired) rs)"
proof (induction rs)
  case Nil
  show ?case by simp
next
  case (Cons rule rs)
  then show ?case by (cases rule) (simp_all add: Let_def)
qed

text \<open>
  \<^bold>\<open>C1.\<close> The rules of a field, as \<^verbatim>\<open>getValidationRules\<close> derives them, stand in the
  fixed order Required, Email, MinLength, Pattern, Phone: their types are the declaration
  order restricted to the variants the field activates. \<^verbatim>\<open>validateField\<close> reports the
  first rule of that list that fails on the trimmed value, whatever follows it: it returns
  false, the field is invalid and carries the error class, and the error element shows
  exactly that rule's message. When no rule fails it returns true and the field is valid.
\<close>

theorem validateField_reports_first_failing_rule:
  assumes "getValidationRules RegExp (nodes s (element (field_objs s r)))
             = Inr (rules (field_objs s r))"
  shows "map rule_type (rules (field_objs s r))
           = filter (spec_activates (nodes s (element (field_objs s r)))) spec_rule_order
         \<and> (case find (\<lambda>rule. \<not> res_isValid (runValidationRule rule
                        (trim (value_prop (nodes s (element (field_objs s r)))))))
                   (rules (field_objs s r)) of
              None \<Rightarrow> snd (validateField s r) = True
                       \<and> isValid (field_objs (fst (validateField s r)) r)
            | Some rule \<Rightarrow>
                snd (validateField s r) = False
                \<and> \<not> isValid (field_objs (fst (validateField s r)) r)
                \<and> textContent (nodes (fst (validateField s r)) (errorElement (field_objs s r)))
                    = rule_message rule
                \<and> display (nodes (fst (validateField s r)) (errorElement (field_objs s r)))
                    = js ''block''
                \<and> error_class \<in> set (classList
                      (nodes (fst (validateField s r)) (element (field_objs s r)))))"
proof -
  let ?v = "trim (value_prop (nodes s (element (field_objs s r))))"
  let ?f = "find (\<lambda>rule. \<not> res_isValid (runValidationRule rule ?v)) (rules (field_objs s r))"
  have order: "map rule_type (rules (field_objs s r))
           = filter (spec_activates (nodes s (element (field_objs s r)))) spec_rule_order"
    using assms by (rule getValidationRules_order)
  have rest: "(case ?f of
              None \<Rightarrow> snd (validateField s r) = True
                       \<and> isValid (field_objs (fst (validateField s r)) r)
            | Some rule \<Rightarrow>
                snd (validateField s r) = False
                \<and> \<not> isValid (field_objs (fst (validateField s r)) r)
                \<and> textContent (nodes (fst (validateField s r)) (errorElement (field_objs s r)))
                    = rule_message rule
                \<and> display (nodes (fst (validateField s r)) (errorElement (field_objs s r)))
                    = js ''block''
                \<and> error_class \<in> set (classList
                      (nodes (fst (validateField s r)) (element (field_objs s r)))))"
  proof (cases ?f)
    case None
    then have "first_failure (rules (field_objs s r)) ?v = None"
      by (simp add: first_failure_find)
    then have "validateField s r = (setFieldSuccess (clearFieldState s r) r, True)"
      by (rule validateField_pass)
    then show ?thesis using None setFieldSuccess_shows(2)[of "clearFieldState s r" r] by simp
  next
    case (Some rule)
    then have "first_failure (rules (field_objs s r)) ?v = Some (rule_message rule)"
      by (simp add: first_failure_find)
    then have "validateField s r = (setFieldError (clearFieldState s r) r (rule_message rule), False)"
      by (rule validateField_fail)
    then show ?thesis
      using Some setFieldError_shows(1,2,3,4)[of "clearFieldState s r" r "rule_message rule"]
      by simp
  qed
  from order rest show ?thesis by (rule conjI)
qed

text \<open>
  \<^bold>\<open>C2.\<close> When the rule list of a field contains a Required rule and the value of the field
  is empty or consists of white space only, \<^verbatim>\<open>validateField\<close> returns false, the field's
  \<^verbatim>\<open>isValid\<close> is false and the error element shows the message of the Required rule, whatever
  the other rules of the list are.
\<close>

theorem required_rejects_blank_value:
  assumes "find (\<lambda>rule. rule_type rule = TRequired) (rules (field_objs s r)) = Some req"
    and "\<forall>c\<in>set (value_prop (nodes s (element (field_objs s r)))). is_space c"
  shows "snd (validateField s r) = False
         \<and> \<not> isValid (field_objs (fst (validateField s r)) r)
         \<and> textContent (nodes (fst (validateField s r)) (errorElement (field_objs s r)))
             = rule_message req
         \<and> display (nodes (fst (validateField s r)) (errorElement (field_objs s r)))
             = js ''block''"
proof -
  have "trim (value_prop (nodes s (element (field_objs s r)))) = []"
    using assms(2) by (simp add: trim_blank)
  then have "first_failure (rules (field_objs s r))
               (trim (value_prop (nodes s (element (field_objs s r))))) = Some (rule_message req)"
    using assms(1) by (simp add: first_failure_blank)
  then have "validateField s r = (setFieldError (clearFieldState s r) r (rule_message req), False)"
    by (rule validateField_fail)
  then show ?thesis
    using setFieldError_shows(1,2,3)[of "clearFieldState s r" r "rule_message req"] by simp
qed

lemma strip_separators_spec:
  "strip_separators v =
     filter (\<lambda>c. \<not> (is_space c \<or> c = cu CHR ''-'' \<or> c = cu CHR ''('' \<or> c = cu CHR '')'')) v"
  by (simp add: strip_separators_def phone_separator_def)

lemma trim_example_phone: "trim (js ''(555) 123-4567'') = js ''(555) 123-4567''"
  by (simp add: trim_def js_def cu_def is_space_def)

lemma example_phone_passes: "spec_phone_pass (js ''(555) 123-4567'')"
  by (simp add: spec_phone_pass_def js_def cu_def is_space_def is_digit_def)

lemma first_failure_phone_field:
  assumes "\<forall>rule\<in>set rs. rule_type rule = TRequired \<or> rule_type rule = TPhone"
    and "v \<noteq> []" and "spec_phone_pass v"
  shows "first_failure rs v = None"
  using assms
proof (induction rs)
  case Nil
  show ?case by simp
next
  case (Cons rule rs)
  then show ?case
    by (cases rule) (simp_all add: Let_def regex_phone_spec strip_separators_spec spec_phone_pass_def)
qed

text \<open>
  \<^bold>\<open>C3.\<close> The Phone rule passes on a value iff the value is empty or the value without its
  white space, hyphens and parentheses matches \<^verbatim>\<open>^[+]?[1-9][0-9]{0,15}$\<close>. It passes on
  \<^verbatim>\<open>(555) 123-4567\<close>, and \<^verbatim>\<open>validateField\<close> returns true on a phone field (a field whose
  rules are the Phone rule, with or without a Required rule) that holds this value.
\<close>

theorem phone_rule_pass_condition:
  "res_isValid (runValidationRule (Phone m) v) = spec_phone_pass v
   \<and> res_isValid (runValidationRule (Phone m) (js ''(555) 123-4567''))
   \<and> ((\<forall>rule\<in>set (rules (field_objs s r)). rule_type rule = TRequired \<or> rule_type rule = TPhone)
        \<and> value_prop (nodes s (element (field_objs s r))) = js ''(555) 123-4567''
       \<longrightarrow> snd (validateField s r) = True)"
proof -
  have a: "res_isValid (runValidationRule (Phone m) w) = spec_phone_pass w" for w
    by (simp add: regex_phone_spec strip_separators_spec spec_phone_pass_def)
  have b: "snd (validateField s r) = True"
    if h: "\<forall>rule\<in>set (rules (field_objs s r)). rule_type rule = TRequired \<or> rule_type rule = TPhone"
      and v: "value_prop (nodes s (element (field_objs s r))) = js ''(555) 123-4567''"
  proof -
    have "first_failure (rules (field_objs s r)) (js ''(555) 123-4567'') = None"
      using h by (rule first_failure_phone_field) (simp add: js_def, rule example_phone_passes)
    then have "validateField s r = (setFieldSuccess (clearFieldState s r) r, True)"
      using v by (intro validateField_pass) (simp add: trim_example_phone)
    then show ?thesis by simp
  qed
  from a[of v] a[of "js ''(555) 123-4567''"] example_phone_passes b show ?thesis by blast
qed

text \<open>
  \<^bold>\<open>C4.\<close> Whatever the state of the page before, \<^verbatim>\<open>clearFieldState\<close> leaves the field
  neutral: its \<^verbatim>\<open>isValid\<close> is false, its error element and its success element are both
  hidden, and its element carries neither the error class nor the success class.
\<close>

theorem clearFieldState_neutral:
  "\<not> isValid (field_objs (clearFieldState s r) r)
   \<and> display (nodes (clearFieldState s r) (errorElement (field_objs (clearFieldState s r) r)))
       = js ''none''
   \<and> display (nodes (clearFieldState s r) (successElement (field_objs (clearFieldState s r) r)))
       = js ''none''
   \<and> error_class \<notin> set (classList
         (nodes (clearFieldState s r) (element (field_objs (clearFieldState s r) r))))
   \<and> success_class \<notin> set (classList
         (nodes (clearFieldState s r) (element (field_objs (clearFieldState s r) r))))"
  by (simp add: clearFieldState_def Let_def classList_remove_def)

text \<open>
  \<^bold>\<open>C9, as amended.\<close> After each of \<^verbatim>\<open>clearFieldState\<close>, \<^verbatim>\<open>setFieldError\<close>,
  \<^verbatim>\<open>setFieldSuccess\<close> and \<^verbatim>\<open>validateField\<close> the error class and the success class are not
  both on the field element, and the value \<^verbatim>\<open>validateField\<close> returns is the field's
  \<^verbatim>\<open>isValid\<close> afterwards. After \<^verbatim>\<open>clearFieldState\<close> the two indicators are not both
  visible. For a field whose error element and success element are two distinct elements,
  they are not both visible after \<^verbatim>\<open>validateField\<close> either, nor after \<^verbatim>\<open>setFieldError\<close>
  when the success element was hidden before, nor after \<^verbatim>\<open>setFieldSuccess\<close> when the error
  element was hidden before (which is how \<^verbatim>\<open>validateField\<close> calls the two, right after
  \<^verbatim>\<open>clearFieldState\<close>).
\<close>

theorem field_operations_exclusive:
  "classes_exclusive (clearFieldState s r) r
   \<and> indicators_exclusive (clearFieldState s r) r
   \<and> classes_exclusive (setFieldError s r m) r
   \<and> classes_exclusive (setFieldSuccess s r) r
   \<and> classes_exclusive (fst (validateField s r)) r
   \<and> snd (validateField s r) = isValid (field_objs (fst (validateField s r)) r)
   \<and> (errorElement (field_objs s r) \<noteq> successElement (field_objs s r) \<longrightarrow>
        indicators_exclusive (fst (validateField s r)) r
        \<and> (display (nodes s (successElement (field_objs s r))) = js ''none''
             \<longrightarrow> indicators_exclusive (setFieldError s r m) r)
        \<and> (display (nodes s (errorElement (field_objs s r))) = js ''none''
             \<longrightarrow> indicators_exclusive (setFieldSuccess s r) r))"
proof -
  have c1: "classes_exclusive (clearFieldState s r) r"
    by (simp add: classes_exclusive_def clearFieldState_def Let_def classList_remove_def)
  have c2: "indicators_exclusive (clearFieldState s r) r"
    by (simp add: indicators_exclusive_def clearFieldState_def Let_def)
  have c3: "classes_exclusive (setFieldError t r m') r" for t m'
    using setFieldError_shows(5)[of t r m'] by (simp add: classes_exclusive_def)
  have c4: "classes_exclusive (setFieldSuccess t r) r" for t
    using setFieldSuccess_shows(4)[of t r] by (simp add: classes_exclusive_def)
  have c5: "classes_exclusive (fst (validateField s r)) r"
    using c3 c4 by (simp add: validateField_def Let_def split: option.splits)
  have c6: "snd (validateField s r) = isValid (field_objs (fst (validateField s r)) r)"
    using setFieldError_shows(3) setFieldSuccess_shows(2)
    by (simp add: validateField_def Let_def split: option.splits)
  have e: "indicators_exclusive (setFieldError t r m') r"
    if "errorElement (field_objs t r) \<noteq> successElement (field_objs t r)"
      and "display (nodes t (successElement (field_objs t r))) = js ''none''" for t m'
    using that
    by (auto simp: indicators_exclusive_def setFieldError_def Let_def classList_add_def
        classList_remove_def)
  have f: "indicators_exclusive (setFieldSuccess t r) r"
    if "errorElement (field_objs t r) \<noteq> successElement (field_objs t r)"
      and "display (nodes t (errorElement (field_objs t r))) = js ''none''" for t
    using that
    by (auto simp: indicators_exclusive_def setFieldSuccess_def Let_def classList_add_def
        classList_remove_def)
  have g: "indicators_exclusive (fst (validateField s r)) r"
    if d: "errorElement (field_objs s r) \<noteq> successElement (field_objs s r)"
  proof -
    have d': "errorElement (field_objs (clearFieldState s r) r)
                \<noteq> successElement (field_objs (clearFieldState s r) r)"
      using d by simp
    have n1: "display (nodes (clearFieldState s r)
                (successElement (field_objs (clearFieldState s r) r))) = js ''none''"
      using clearFieldState_hides(2)[of s r] by simp
    have n2: "display (nodes (clearFieldState s r)
                (errorElement (field_objs (clearFieldState s r) r))) = js ''none''"
      using clearFieldState_hides(1)[of s r] by simp
    show ?thesis
      using e[OF d' n1] f[OF d' n2] by (simp add: validateField_def Let_def split: option.splits)
  qed
  from c1 c2 c3 c4 c5 c6 e f g show ?thesis by blast
qed

text \<open>
  The two indicators have to be distinct elements: a field whose error element is also
  its success element shows it after every validation.
\<close>

lemma shared_indicator_is_visible:
  assumes "errorElement (field_objs s r) = successElement (field_objs s r)"
  shows "\<not> indicators_exclusive (fst (validateField s r)) r"
proof -
  have b: "js ''block'' \<noteq> js ''none''" by simp
  have e: "\<not> indicators_exclusive (setFieldError t r m) r"
    if "errorElement (field_objs t r) = successElement (field_objs t r)" for t m
    using that setFieldError_shows(2)[of t r m] b by (simp add: indicators_exclusive_def)
  have f: "\<not> indicators_exclusive (setFieldSuccess t r) r"
    if "errorElement (field_objs t r) = successElement (field_objs t r)" for t
    using that setFieldSuccess_shows(1)[of t r] b by (simp add: indicators_exclusive_def)
  have a: "errorElement (field_objs (clearFieldState s r) r)
             = successElement (field_objs (clearFieldState s r) r)"
    using assms by simp
  show ?thesis
    using e[OF a] f[OF a] by (simp add: validateField_def Let_def split: option.splits)
qed

text \<open>
  \<^bold>\<open>C10.\<close> A field without the \<^verbatim>\<open>required\<close>, \<^verbatim>\<open>minlength\<close> and \<^verbatim>\<open>pattern\<close> attributes,
  whose type is not \<^verbatim>\<open>email\<close> and whose identifier is not \<^verbatim>\<open>phone\<close>, has the empty rule
  list, and \<^verbatim>\<open>validateField\<close> returns true on it whatever its value is: the field is
  valid, its element carries the success class and the success element is shown.
\<close>

theorem field_without_rules_is_valid:
  assumes "getValidationRules RegExp (nodes s (element (field_objs s r))) = Inr (rules (field_objs s r))"
    and "\<not> hasAttribute (nodes s (element (field_objs s r))) (js ''required'')"
    and "type_prop (nodes s (element (field_objs s r))) \<noteq> js ''email''"
    and "\<not> hasAttribute (nodes s (element (field_objs s r))) (js ''minlength'')"
    and "\<not> hasAttribute (nodes s (element (field_objs s r))) (js ''pattern'')"
    and "field_identifier (nodes s (element (field_objs s r))) \<noteq> js ''phone''"
  shows "rules (field_objs s r) = []
         \<and> snd (validateField s r) = True
         \<and> isValid (field_objs (fst (validateField s r)) r)
         \<and> success_class \<in> set (classList (nodes (fst (validateField s r)) (element (field_objs s r))))
         \<and> display (nodes (fst (validateField s r)) (successElement (field_objs s r))) = js ''block''"
proof -
  have e: "rules (field_objs s r) = []"
    using assms by (simp add: getValidationRules_def Let_def)
  then have "validateField s r = (setFieldSuccess (clearFieldState s r) r, True)"
    by (intro validateField_pass) simp
  then show ?thesis
    using e setFieldSuccess_shows(1,2,3)[of "clearFieldState s r" r] by simp
qed

section \<open>Validation of a form and the submission gate\<close>

lemma validateField_result: "snd (validateField s r) = field_passes s r"
  by (simp add: validateField_def field_passes_def Let_def split: option.splits)

lemma field_ops_value [simp]:
  "value_prop (nodes (clearFieldState s r) a) = value_prop (nodes s a)"
  "value_prop (nodes (setFieldError s r m) a) = value_prop (nodes s a)"
  "value_prop (nodes (setFieldSuccess s r) a) = value_prop (nodes s a)"
  by (simp_all add: clearFieldState_def setFieldError_def setFieldSuccess_def Let_def
      classList_add_def classList_remove_def)

lemma field_ops_disabled [simp]:
  "disabled (nodes (clearFieldState s r) a) = disabled (nodes s a)"
  "disabled (nodes (setFieldError s r m) a) = disabled (nodes s a)"
  "disabled (nodes (setFieldSuccess s r) a) = disabled (nodes s a)"
  by (simp_all add: clearFieldState_def setFieldError_def setFieldSuccess_def Let_def
      classList_add_def classList_remove_def)

lemma field_ops_frame [simp]:
  "timers (clearFieldState s r) = timers s"
  "timers (setFieldError s r m) = timers s"
  "timers (setFieldSuccess s r) = timers s"
  "forms (clearFieldState s r) = forms s"
  "forms (setFieldError s r m) = forms s"
  "forms (setFieldSuccess s r) = forms s"
  "activeElement (clearFieldState s r) = activeElement s"
  "activeElement (setFieldError s r m) = activeElement s"
  "activeElement (setFieldSuccess s r) = activeElement s"
  "listeners (clearFieldState s r) = listeners s"
  "listeners (setFieldError s r m) = listeners s"
  "listeners (setFieldSuccess s r) = listeners s"
  by (simp_all add: clearFieldState_def setFieldError_def setFieldSuccess_def Let_def)

lemma field_ops_other_nodes:
  assumes "a \<noteq> element (field_objs s r)" "a \<noteq> errorElement (field_objs s r)"
    "a \<noteq> successElement (field_objs s r)"
  shows "nodes (clearFieldState s r) a = nodes s a"
    "nodes (setFieldError s r m) a = nodes s a"
    "nodes (setFieldSuccess s r) a = nodes s a"
  using assms by (simp_all add: clearFieldState_def setFieldError_def setFieldSuccess_def Let_def)

lemma field_ops_other_fields:
  assumes "q \<noteq> r"
  shows "field_objs (clearFieldState s r) q = field_objs s q"
    "field_objs (setFieldError s r m) q = field_objs s q"
    "field_objs (setFieldSuccess s r) q = field_objs s q"
  using assms by (simp_all add: clearFieldState_def setFieldError_def setFieldSuccess_def Let_def)

lemma validateField_frame [simp]:
  "value_prop (nodes (fst (validateField s r)) a) = value_prop (nodes s a)"
  "disabled (nodes (fst (validateField s r)) a) = disabled (nodes s a)"
  "timers (fst (validateField s r)) = timers s"
  "forms (fst (validateField s r)) = forms s"
  "activeElement (fst (validateField s r)) = activeElement s"
  "listeners (fst (validateField s r)) = listeners s"
  by (simp_all add: validateField_def Let_def split: option.splits)

lemma validateField_other_nodes:
  assumes "a \<noteq> element (field_objs s r)" "a \<noteq> errorElement (field_objs s r)"
    "a \<noteq> successElement (field_objs s r)"
  shows "nodes (fst (validateField s r)) a = nodes s a"
  using assms by (simp add: validateField_def Let_def field_ops_other_nodes split: option.splits)

lemma validateField_isValid:
  "isValid (field_objs (fst (validateField s r)) q)
     = (if q = r then field_passes s r else isValid (field_objs s q))"
proof (cases "q = r")
  case True
  then show ?thesis
    using setFieldError_shows(3) setFieldSuccess_shows(2)
    by (simp add: validateField_def field_passes_def Let_def split: option.splits)
next
  case False
  then show ?thesis
    by (simp add: validateField_def clearFieldState_def setFieldError_def setFieldSuccess_def
        Let_def split: option.splits)
qed

lemma field_passes_validateField [simp]:
  "field_passes (fst (validateField s r)) q = field_passes s q"
  by (simp add: field_passes_def)

lemma validate_fields_Cons:
  "validate_fields s (r # rs) acc
     = validate_fields (fst (validateField s r)) rs (acc \<and> field_passes s r)"
proof -
  have "(if \<not> field_passes s r then False else acc) = (acc \<and> field_passes s r)" by auto
  then show ?thesis by (simp add: case_prod_beta validateField_result)
qed

lemma validate_fields_result:
  "snd (validate_fields s rs acc) = (acc \<and> (\<forall>r\<in>set rs. field_passes s r))"
proof (induction rs arbitrary: s acc)
  case Nil
  show ?case by simp
next
  case (Cons r rs)
  show ?case
    unfolding validate_fields_Cons Cons.IH by auto
qed

lemma validate_fields_props:
  "(\<forall>q. isValid (field_objs (fst (validate_fields s rs acc)) q)
        = (if q \<in> set rs then field_passes s q else isValid (field_objs s q)))
   \<and> (\<forall>q. element (field_objs (fst (validate_fields s rs acc)) q) = element (field_objs s q))
   \<and> timers (fst (validate_fields s rs acc)) = timers s
   \<and> forms (fst (validate_fields s rs acc)) = forms s
   \<and> activeElement (fst (validate_fields s rs acc)) = activeElement s
   \<and> listeners (fst (validate_fields s rs acc)) = listeners s
   \<and> (\<forall>a. disabled (nodes (fst (validate_fields s rs acc)) a) = disabled (nodes s a))
   \<and> (\<forall>a. (\<forall>r\<in>set rs. a \<noteq> element (field_objs s r) \<and> a \<noteq> errorElement (field_objs s r)
                \<and> a \<noteq> successElement (field_objs s r))
          \<longrightarrow> nodes (fst (validate_fields s rs acc)) a = nodes s a)"
proof (induction rs arbitrary: s acc)
  case Nil
  show ?case by simp
next
  case (Cons r rs)
  show ?case
    unfolding validate_fields_Cons
    using Cons.IH[of "fst (validateField s r)" "acc \<and> field_passes s r"]
    by (auto simp: validateField_isValid validateField_other_nodes)
qed

lemma fold_validateField:
  "fold (\<lambda>r t. fst (validateField t r)) rs s = fst (validate_fields s rs acc)"
proof (induction rs arbitrary: s acc)
  case Nil
  show ?case by simp
next
  case (Cons r rs)
  show ?case
    unfolding validate_fields_Cons using Cons.IH[of "fst (validateField s r)"] by simp
qed

lemma field_ops_focus_frame [simp]:
  "parentNode (nodes (clearFieldState s r) a) = parentNode (nodes s a)"
  "parentNode (nodes (setFieldError s r m) a) = parentNode (nodes s a)"
  "parentNode (nodes (setFieldSuccess s r) a) = parentNode (nodes s a)"
  "type_prop (nodes (clearFieldState s r) a) = type_prop (nodes s a)"
  "type_prop (nodes (setFieldError s r m) a) = type_prop (nodes s a)"
  "type_prop (nodes (setFieldSuccess s r) a) = type_prop (nodes s a)"
  "browser_focusable (nodes (clearFieldState s r) a) = browser_focusable (nodes s a)"
  "browser_focusable (nodes (setFieldError s r m) a) = browser_focusable (nodes s a)"
  "browser_focusable (nodes (setFieldSuccess s r) a) = browser_focusable (nodes s a)"
  "document_root (clearFieldState s r) = document_root s"
  "document_root (setFieldError s r m) = document_root s"
  "document_root (setFieldSuccess s r) = document_root s"
  by (simp_all add: clearFieldState_def setFieldError_def setFieldSuccess_def Let_def
      classList_add_def classList_remove_def)

lemma field_ops_display:
  assumes "a \<noteq> errorElement (field_objs s r)" "a \<noteq> successElement (field_objs s r)"
  shows "display (nodes (clearFieldState s r) a) = display (nodes s a)"
    "display (nodes (setFieldError s r m) a) = display (nodes s a)"
    "display (nodes (setFieldSuccess s r) a) = display (nodes s a)"
  using assms
  by (simp_all add: clearFieldState_def setFieldError_def setFieldSuccess_def Let_def
      classList_add_def classList_remove_def)

lemma validateField_focus_frame [simp]:
  "parentNode (nodes (fst (validateField s r)) a) = parentNode (nodes s a)"
  "type_prop (nodes (fst (validateField s r)) a) = type_prop (nodes s a)"
  "browser_focusable (nodes (fst (validateField s r)) a) = browser_focusable (nodes s a)"
  "document_root (fst (validateField s r)) = document_root s"
  by (simp_all add: validateField_def Let_def split: option.splits)

lemma validateField_display:
  assumes "a \<noteq> errorElement (field_objs s r)" "a \<noteq> successElement (field_objs s r)"
  shows "display (nodes (fst (validateField s r)) a) = display (nodes s a)"
  using assms by (simp add: validateField_def Let_def field_ops_display split: option.splits)

lemma validate_fields_focus_frame:
  "(\<forall>a. parentNode (nodes (fst (validate_fields s rs acc)) a) = parentNode (nodes s a))
   \<and> (\<forall>a. type_prop (nodes (fst (validate_fields s rs acc)) a) = type_prop (nodes s a))
   \<and> (\<forall>a. browser_focusable (nodes (fst (validate_fields s rs acc)) a)
          = browser_focusable (nodes s a))
   \<and> document_root (fst (validate_fields s rs acc)) = document_root s
   \<and> (\<forall>q. errorElement (field_objs (fst (validate_fields s rs acc)) q)
          = errorElement (field_objs s q))
   \<and> (\<forall>q. successElement (field_objs (fst (validate_fields s rs acc)) q)
          = successElement (field_objs s q))
   \<and> (\<forall>a. (\<forall>r\<in>set rs. a \<noteq> errorElement (field_objs s r)
                \<and> a \<noteq> successElement (field_objs s r))
          \<longrightarrow> display (nodes (fst (validate_fields s rs acc)) a) = display (nodes s a))"
proof (induction rs arbitrary: s acc)
  case Nil
  show ?case by simp
next
  case (Cons r rs)
  show ?case
    unfolding validate_fields_Cons
    using Cons.IH[of "fst (validateField s r)" "acc \<and> field_passes s r"]
    by (auto simp: validateField_display)
qed

text \<open>A call of \<^verbatim>\<open>focus\<close>, with the listeners it runs written as one validation walk.\<close>

lemma focus_walk:
  "focus s a =
     (if focusable s a \<and> activeElement s \<noteq> Some a
      then (fst (validate_fields s (blur_fields s) True))\<lparr>activeElement := Some a\<rparr>
      else s)"
  by (cases "activeElement s")
     (simp_all add: focus_def blur_fields_def dispatch_blur_def fold_validateField[where acc = True])

lemma focus_activeElement:
  "activeElement (focus s a) = (if focusable s a then Some a else activeElement s)"
  by (auto simp: focus_walk)

lemma focus_frame:
  "timers (focus s a) = timers s"
  "forms (focus s a) = forms s"
  "listeners (focus s a) = listeners s"
  "disabled (nodes (focus s a) b) = disabled (nodes s b)"
  using validate_fields_props[of s "blur_fields s" True]
  by (simp_all add: focus_walk)

lemma focus_other_nodes:
  assumes "\<forall>r\<in>set (blur_fields s). b \<noteq> element (field_objs s r)
             \<and> b \<noteq> errorElement (field_objs s r) \<and> b \<noteq> successElement (field_objs s r)"
  shows "nodes (focus s a) b = nodes s b"
  using assms validate_fields_props[of s "blur_fields s" True]
  by (simp add: focus_walk)

lemma find_failing_field:
  "find (\<lambda>r. \<not> isValid (field_objs (fst (validate_fields s rs acc)) r)) rs
     = find (\<lambda>r. \<not> field_passes s r) rs"
  using validate_fields_props[of s rs acc] by (intro find_cong) simp_all

lemma find_Some_if_exists: "\<exists>x\<in>set xs. P x \<Longrightarrow> \<exists>y. find P xs = Some y"
  by (cases "find P xs") (auto simp: find_None_iff)

lemma submitForm_timers:
  "timers (submitForm s fd)
     = timers s @ [(2000, FinishSubmit fd (querySelector s (form_element fd) SubmitButton))]"
  by (simp add: submitForm_def setTimeout_def Let_def split: option.splits)

lemma field_passes_flag [simp]:
  "field_passes (upd_field q (\<lambda>d. d\<lparr>isValid := b\<rparr>) s) r = field_passes s r"
  by (simp add: field_passes_def)

lemma handleSubmit_unfold:
  "handleSubmit s fd =
     (if snd (validateForm s fd) then submitForm (fst (validateForm s fd)) fd
      else (case find (\<lambda>r. \<not> isValid (field_objs (fst (validateForm s fd)) r)) (tracked fd) of
              Some firstInvalidField \<Rightarrow>
                focus (fst (validateForm s fd))
                  (element (field_objs (fst (validateForm s fd)) firstInvalidField))
            | None \<Rightarrow> fst (validateForm s fd)))"
  by (simp add: handleSubmit_def case_prod_beta tracked_def)

lemma validateForm_walk:
  "validateForm s fd = validate_fields s (tracked fd) True"
  by (simp add: validateForm_def tracked_def)

lemma handleSubmit_fail:
  assumes "\<not> snd (validateForm s fd)"
  shows "\<exists>r. find (\<lambda>r. \<not> isValid (field_objs (fst (validateForm s fd)) r)) (tracked fd) = Some r
           \<and> find (\<lambda>r. \<not> field_passes s r) (tracked fd) = Some r
           \<and> handleSubmit s fd = focus (fst (validateForm s fd)) (element (field_objs s r))"
proof -
  note props = validate_fields_props[of s "tracked fd" True, folded validateForm_walk]
  from assms have "\<exists>r\<in>set (tracked fd). \<not> field_passes s r"
    by (simp add: validateForm_walk validate_fields_result)
  then obtain r where r: "find (\<lambda>r. \<not> field_passes s r) (tracked fd) = Some r"
    using find_Some_if_exists[of "tracked fd" "\<lambda>r. \<not> field_passes s r"] by blast
  have same: "find (\<lambda>r. \<not> isValid (field_objs (fst (validateForm s fd)) r)) (tracked fd) = Some r"
    using r find_failing_field[of s "tracked fd" True] by (simp add: validateForm_walk)
  have el: "element (field_objs (fst (validateForm s fd)) r) = element (field_objs s r)"
    using props by simp
  have "handleSubmit s fd = focus (fst (validateForm s fd)) (element (field_objs s r))"
    using assms same el by (simp add: handleSubmit_unfold)
  with r same show ?thesis by blast
qed

lemma blur_fields_validateForm:
  "blur_fields (fst (validateForm s fd)) = blur_fields s"
proof -
  have l: "listeners (fst (validateForm s fd)) = listeners s"
    and a: "activeElement (fst (validateForm s fd)) = activeElement s"
    using validate_fields_props[of s "tracked fd" True, folded validateForm_walk] by simp_all
  have "blur_listeners (fst (validateForm s fd)) old = blur_listeners s old" for old
    by (simp add: blur_listeners_def l)
  then show ?thesis by (simp add: blur_fields_def a split: option.splits)
qed

text \<open>
  \<^bold>\<open>C5, as amended.\<close> \<^verbatim>\<open>handleSubmit\<close> validates every tracked field anew, one after
  the other in insertion order: the state after \<^verbatim>\<open>validateForm\<close> is that of
  \<^verbatim>\<open>validateField\<close> folded over the tracked fields from the first to the last, its
  result is that every tracked field passes on its current value, it does not depend on
  the \<^verbatim>\<open>isValid\<close> flags found, and afterwards the flag of every tracked field is the
  outcome of its validation. When all fields pass, \<^verbatim>\<open>handleSubmit\<close> is the submission
  sequence run after the validation, and the submission timer is queued. When some field
  fails, \<^verbatim>\<open>focus()\<close> is called on the element of the first tracked field, in insertion
  order, whose \<^verbatim>\<open>isValid\<close> is false, which is the first field that failed: that element
  is the active element afterwards when it is focusable, and the active element is the one
  it was otherwise. No timer is queued, no element changes its \<^verbatim>\<open>disabled\<close> state, and
  every node is as it was unless it is the element or an indicator of a tracked field, or
  of a field whose \<^verbatim>\<open>blur\<close> listener the move of the focus runs.
\<close>

theorem handleSubmit_gate:
  "fst (validateForm s fd) = fold (\<lambda>r t. fst (validateField t r)) (tracked fd) s
   \<and> snd (validateForm s fd) = (\<forall>r\<in>set (tracked fd). field_passes s r)
   \<and> snd (validateForm (upd_field q (\<lambda>d. d\<lparr>isValid := b\<rparr>) s) fd) = snd (validateForm s fd)
   \<and> (\<forall>r\<in>set (tracked fd).
         isValid (field_objs (fst (validateForm s fd)) r) = field_passes s r)
   \<and> (snd (validateForm s fd) \<longrightarrow>
         handleSubmit s fd = submitForm (fst (validateForm s fd)) fd
         \<and> timers (handleSubmit s fd)
             = timers s @ [(2000, FinishSubmit fd
                  (querySelector (fst (validateForm s fd)) (form_element fd) SubmitButton))])
   \<and> (\<not> snd (validateForm s fd) \<longrightarrow>
         (\<exists>r. find (\<lambda>r. \<not> isValid (field_objs (fst (validateForm s fd)) r)) (tracked fd) = Some r
              \<and> find (\<lambda>r. \<not> field_passes s r) (tracked fd) = Some r
              \<and> handleSubmit s fd = focus (fst (validateForm s fd)) (element (field_objs s r))
              \<and> activeElement (handleSubmit s fd)
                  = (if focusable (fst (validateForm s fd)) (element (field_objs s r))
                     then Some (element (field_objs s r)) else activeElement s))
         \<and> timers (handleSubmit s fd) = timers s
         \<and> (\<forall>a. disabled (nodes (handleSubmit s fd) a) = disabled (nodes s a))
         \<and> (\<forall>a. (\<forall>r\<in>set (tracked fd @ blur_fields s). a \<noteq> element (field_objs s r)
                      \<and> a \<noteq> errorElement (field_objs s r)
                      \<and> a \<noteq> successElement (field_objs s r))
                \<longrightarrow> nodes (handleSubmit s fd) a = nodes s a))"
proof -
  let ?rs = "tracked fd"
  let ?s1 = "fst (validateForm s fd)"
  have walk: "?s1 = fold (\<lambda>r t. fst (validateField t r)) ?rs s"
    by (simp add: validateForm_walk fold_validateField[where acc = True])
  have res: "snd (validateForm t fd) = (\<forall>r\<in>set ?rs. field_passes t r)" for t
    by (simp add: validateForm_walk validate_fields_result)
  have flags: "snd (validateForm (upd_field q (\<lambda>d. d\<lparr>isValid := b\<rparr>) s) fd) = snd (validateForm s fd)"
    by (simp add: res)
  note props = validate_fields_props[of s ?rs True, folded validateForm_walk]
  note fprops = validate_fields_focus_frame[of s ?rs True, folded validateForm_walk]
  have valid_after: "\<forall>r\<in>set ?rs. isValid (field_objs ?s1 r) = field_passes s r"
    using props by simp
  have pass: "handleSubmit s fd = submitForm ?s1 fd
         \<and> timers (handleSubmit s fd)
             = timers s @ [(2000, FinishSubmit fd (querySelector ?s1 (form_element fd) SubmitButton))]"
    if "snd (validateForm s fd)"
    using that props by (simp add: handleSubmit_unfold submitForm_timers)
  have fail: "(\<exists>r. find (\<lambda>r. \<not> isValid (field_objs ?s1 r)) ?rs = Some r
              \<and> find (\<lambda>r. \<not> field_passes s r) ?rs = Some r
              \<and> handleSubmit s fd = focus ?s1 (element (field_objs s r))
              \<and> activeElement (handleSubmit s fd)
                  = (if focusable ?s1 (element (field_objs s r))
                     then Some (element (field_objs s r)) else activeElement s))
         \<and> timers (handleSubmit s fd) = timers s
         \<and> (\<forall>a. disabled (nodes (handleSubmit s fd) a) = disabled (nodes s a))
         \<and> (\<forall>a. (\<forall>r\<in>set (?rs @ blur_fields s). a \<noteq> element (field_objs s r)
                      \<and> a \<noteq> errorElement (field_objs s r)
                      \<and> a \<noteq> successElement (field_objs s r))
                \<longrightarrow> nodes (handleSubmit s fd) a = nodes s a)"
    if nv: "\<not> snd (validateForm s fd)"
  proof -
    from handleSubmit_fail[OF nv] obtain r where
      same: "find (\<lambda>r. \<not> isValid (field_objs ?s1 r)) ?rs = Some r"
      and r: "find (\<lambda>r. \<not> field_passes s r) ?rs = Some r"
      and h: "handleSubmit s fd = focus ?s1 (element (field_objs s r))"
      by blast
    have act: "activeElement (handleSubmit s fd)
                  = (if focusable ?s1 (element (field_objs s r))
                     then Some (element (field_objs s r)) else activeElement s)"
      using props by (simp add: h focus_activeElement)
    have tm: "timers (handleSubmit s fd) = timers s"
      using props by (simp add: h focus_frame)
    have dis: "\<forall>a. disabled (nodes (handleSubmit s fd) a) = disabled (nodes s a)"
      using props by (simp add: h focus_frame)
    have oth: "nodes (handleSubmit s fd) a = nodes s a"
      if out: "\<forall>r\<in>set (?rs @ blur_fields s). a \<noteq> element (field_objs s r)
                      \<and> a \<noteq> errorElement (field_objs s r)
                      \<and> a \<noteq> successElement (field_objs s r)" for a
    proof -
      have "\<forall>r\<in>set (blur_fields ?s1). a \<noteq> element (field_objs ?s1 r)
             \<and> a \<noteq> errorElement (field_objs ?s1 r) \<and> a \<noteq> successElement (field_objs ?s1 r)"
        using out props fprops by (simp add: blur_fields_validateForm)
      then have "nodes (focus ?s1 (element (field_objs s r))) a = nodes ?s1 a"
        by (rule focus_other_nodes)
      moreover have "nodes ?s1 a = nodes s a"
        using out props by simp
      ultimately show ?thesis by (simp add: h)
    qed
    from same r h act tm dis oth show ?thesis by blast
  qed
  from walk res[of s] flags valid_after pass fail show ?thesis by blast
qed

section \<open>The form objects after initialization\<close>

lemma dom_ops_forms [simp]:
  "forms (fst (createElement s tag)) = forms s"
  "forms (removeChild s p c) = forms s"
  "forms (appendChild s p c) = forms s"
  "forms (setTimeout s t d) = forms s"
  "forms (addEventListener s a ev h) = forms s"
  by (simp_all add: createElement_def removeChild_def appendChild_def setTimeout_def
      addEventListener_def Let_def split: option.splits)

lemma create_indicator_forms [simp]:
  "forms (fst (createErrorElement s input)) = forms s"
  "forms (fst (createSuccessElement s input)) = forms s"
  by (simp_all add: createErrorElement_def createSuccessElement_def createElement_def
      appendChild_def removeChild_def Let_def split: option.splits)

lemma initializeField_keeps:
  "forms (fst (initializeField RegExp s fd input)) = forms s"
  "initializeField RegExp s fd input = (s', Inr fd') \<Longrightarrow>
     form_isValid fd' = form_isValid fd \<and> form_element fd' = form_element fd"
proof -
  show "forms (fst (initializeField RegExp s fd input)) = forms s"
    by (simp add: initializeField_def Let_def addEventListener_def case_prod_beta
        split: sum.splits)
  show "initializeField RegExp s fd input = (s', Inr fd') \<Longrightarrow>
     form_isValid fd' = form_isValid fd \<and> form_element fd' = form_element fd"
    by (auto simp: initializeField_def Let_def split: sum.splits prod.splits)
qed

lemma init_fields_keeps:
  "forms (fst (init_fields RegExp s fd inputs)) = forms s"
  "init_fields RegExp s fd inputs = (s', Inr fd') \<Longrightarrow>
     form_isValid fd' = form_isValid fd \<and> form_element fd' = form_element fd"
proof (induction inputs arbitrary: s fd)
  case Nil
  { case 1 show ?case by simp }
  { case 2 then show ?case by simp }
next
  case (Cons input inputs)
  { case 1
    show ?case
    proof (cases "initializeField RegExp s fd input")
      case (Pair s1 res)
      then have f: "forms s1 = forms s"
        using initializeField_keeps(1)[of RegExp s fd input] by simp
      show ?thesis using Pair f Cons.IH(1) by (cases res) simp_all
    qed }
  { case 2
    show ?case
    proof (cases "initializeField RegExp s fd input")
      case (Pair s1 res)
      show ?thesis
      proof (cases res)
        case (Inl e)
        with Pair 2 show ?thesis by simp
      next
        case (Inr fd1)
        with Pair 2 have "init_fields RegExp s1 fd1 inputs = (s', Inr fd')" by simp
        then have "form_isValid fd' = form_isValid fd1 \<and> form_element fd' = form_element fd1"
          by (rule Cons.IH(2))
        moreover have "form_isValid fd1 = form_isValid fd \<and> form_element fd1 = form_element fd"
          using Pair Inr initializeField_keeps(2) by blast
        ultimately show ?thesis by simp
      qed
    qed }
qed

lemma initializeForm_registers:
  assumes "initializeForm RegExp s form = (s', Inr u)"
  shows "\<exists>fd. forms s' = forms s @ [fd] \<and> form_isValid fd = False \<and> form_element fd = form"
proof -
  let ?fd0 = "\<lparr>form_element = form, form_fields = [], form_isValid = False\<rparr>"
  let ?inputs = "querySelectorAll s form (ByTags [js ''input'', js ''textarea'', js ''select''])"
  obtain s1 res where i: "init_fields RegExp s ?fd0 ?inputs = (s1, res)"
    by (cases "init_fields RegExp s ?fd0 ?inputs")
  show ?thesis
  proof (cases res)
    case (Inl e)
    with i assms show ?thesis by (simp add: initializeForm_def Let_def)
  next
    case (Inr fd1)
    have k: "form_isValid fd1 = False \<and> form_element fd1 = form"
      using init_fields_keeps(2)[of RegExp s ?fd0 ?inputs s1 fd1] i Inr by simp
    have f: "forms s1 = forms s"
      using init_fields_keeps(1)[of RegExp s ?fd0 ?inputs] i by simp
    have "s' = (addEventListener s1 form (js ''submit'') (OnSubmit fd1))
                 \<lparr>forms := forms (addEventListener s1 form (js ''submit'') (OnSubmit fd1)) @ [fd1]\<rparr>"
      using i Inr assms by (simp add: initializeForm_def Let_def)
    then have "forms s' = forms s @ [fd1]" using f by simp
    with k show ?thesis by blast
  qed
qed

lemma fold_clear_forms [simp]: "forms (fold (\<lambda>r t. clearFieldState t r) rs s) = forms s"
  by (induction rs arbitrary: s) simp_all

lemma fold_upd_node_forms [simp]: "forms (fold (\<lambda>i. upd_node i (g i)) xs s) = forms s"
  by (induction xs arbitrary: s) simp_all

lemma submit_forms [simp]:
  "forms (submitForm s fd) = forms s"
  "forms (showSuccessMessage s form) = forms s"
  "forms (form_reset s form) = forms s"
  "forms (finish_submit s fd b) = forms s"
  by (simp_all add: submitForm_def showSuccessMessage_def createSuccessModal_def form_reset_def
      finish_submit_def Let_def case_prod_beta split: option.splits)

lemma run_task_forms [simp]: "forms (run_task s t) = forms s"
  by (cases t) simp_all

lemma fire_timer_forms: "forms (fire_timer s i) = forms s"
  by (simp add: fire_timer_def)

lemma validateForm_forms: "forms (fst (validateForm s fd)) = forms s"
  using validate_fields_props[of s "map snd (form_fields fd)" True] by (simp add: validateForm_def)

lemma handleSubmit_forms: "forms (handleSubmit s fd) = forms s"
  by (simp add: handleSubmit_def case_prod_beta validateForm_forms focus_frame
      split: option.splits)

text \<open>
  \<^bold>\<open>C7, as amended.\<close> \<^verbatim>\<open>initializeForm\<close> registers the form object with \<^verbatim>\<open>isValid\<close> false,
  and no operation writes it again: clearing or validating a field, validating the form,
  handling a submit event and the expiry of a timer all leave the registered form objects
  as they are. The derived validity is the value \<^verbatim>\<open>validateForm\<close> returns, computed anew
  by each call: it is true iff the \<^verbatim>\<open>isValid\<close> of every tracked field is true after that
  validation.
\<close>

theorem form_isValid_never_recomputed:
  "(initializeForm RegExp s form = (s', Inr u) \<longrightarrow>
      (\<exists>fd. forms s' = forms s @ [fd] \<and> form_isValid fd = False))
   \<and> forms (clearFieldState s r) = forms s
   \<and> forms (fst (validateField s r)) = forms s
   \<and> forms (fst (validateForm s fd)) = forms s
   \<and> forms (handleSubmit s fd) = forms s
   \<and> forms (fire_timer s i) = forms s
   \<and> snd (validateForm s fd)
       = (\<forall>r\<in>set (tracked fd). isValid (field_objs (fst (validateForm s fd)) r))"
proof -
  have a: "initializeForm RegExp s form = (s', Inr u) \<longrightarrow>
      (\<exists>fd. forms s' = forms s @ [fd] \<and> form_isValid fd = False)"
    using initializeForm_registers by blast
  have vf: "validateForm s fd = validate_fields s (tracked fd) True"
    by (simp add: validateForm_def tracked_def)
  have g: "snd (validateForm s fd)
       = (\<forall>r\<in>set (tracked fd). isValid (field_objs (fst (validateForm s fd)) r))"
    using validate_fields_props[of s "tracked fd" True]
    by (simp add: vf validate_fields_result)
  from a g show ?thesis
    by (simp add: validateForm_forms handleSubmit_forms fire_timer_forms)
qed

section \<open>A pattern that is not a regular expression\<close>

lemma init_fields_append:
  "init_fields RegExp s fd (xs @ ys) =
     (case init_fields RegExp s fd xs of
        (s1, Inl e) \<Rightarrow> (s1, Inl e)
      | (s1, Inr fd1) \<Rightarrow> init_fields RegExp s1 fd1 ys)"
  by (induction xs arbitrary: s fd) (auto split: prod.splits sum.splits)

text \<open>
  \<^bold>\<open>C8, as amended.\<close> When a field carries a \<^verbatim>\<open>pattern\<close> attribute that is not a regular
  expression, the construction of its rules raises the exception at initialization time,
  and nothing catches it: \<^verbatim>\<open>initializeField\<close> raises without any effect, the loop over
  the inputs of the form stops, so that no later field of the form is initialized, and
  \<^verbatim>\<open>initializeForm\<close> raises in the state that the fields before the offending one have
  left: the form is not registered, and the loop over the forms stops before any later
  form.
\<close>

theorem invalid_pattern_aborts_initialization:
  assumes "hasAttribute (nodes s input) (js ''pattern'')"
    and "RegExp (to_string (getAttribute (nodes s input) (js ''pattern''))) = Inl e"
  shows "getValidationRules RegExp (nodes s input) = Inl e
    \<and> initializeField RegExp s fd input = (s, Inl e)
    \<and> init_fields RegExp s fd (input # later) = (s, Inl e)
    \<and> (\<forall>s0 form earlier later_forms.
          querySelectorAll s0 form (ByTags [js ''input'', js ''textarea'', js ''select''])
            = earlier @ input # later
          \<and> init_fields RegExp s0 \<lparr>form_element = form, form_fields = [], form_isValid = False\<rparr>
              earlier = (s, Inr fd)
          \<longrightarrow> initializeForm RegExp s0 form = (s, Inl e)
              \<and> forms s = forms s0
              \<and> init_forms RegExp s0 (form # later_forms) = (s, Inl e))"
proof -
  have a: "getValidationRules RegExp (nodes s input) = Inl e"
    using assms by (simp add: getValidationRules_def Let_def)
  have b: "initializeField RegExp s fd' input = (s, Inl e)" for fd'
    using a by (simp add: initializeField_def)
  have c: "init_fields RegExp s fd (input # later) = (s, Inl e)"
    using b by simp
  have d: "initializeForm RegExp s0 form = (s, Inl e) \<and> forms s = forms s0
           \<and> init_forms RegExp s0 (form # later_forms) = (s, Inl e)"
    if q: "querySelectorAll s0 form (ByTags [js ''input'', js ''textarea'', js ''select''])
            = earlier @ input # later"
      and i: "init_fields RegExp s0 \<lparr>form_element = form, form_fields = [], form_isValid = False\<rparr>
              earlier = (s, Inr fd)"
    for s0 form earlier later_forms
  proof -
    have "init_fields RegExp s0 \<lparr>form_element = form, form_fields = [], form_isValid = False\<rparr>
            (earlier @ input # later) = (s, Inl e)"
      using i c by (simp add: init_fields_append)
    then have f: "initializeForm RegExp s0 form = (s, Inl e)"
      using q by (simp add: initializeForm_def Let_def)
    have "forms s = forms s0"
      using init_fields_keeps(1)[of RegExp s0 _ earlier] i by (metis fst_conv)
    with f show ?thesis by simp
  qed
  from a b c d show ?thesis by blast
qed

section \<open>The example documents, evaluated\<close>

lemma js_Nil [simp]: "js s = [] \<longleftrightarrow> s = []" "[] = js s \<longleftrightarrow> s = []"
  by (auto simp: js_def)

lemma js_append [simp]: "js a @ js b = js (a @ b)"
  by (simp add: js_def)

lemma new_node_sel [simp]:
  "tagName (new_node t) = t"
  "attributes (new_node t) = Map.empty"
  "type_prop (new_node t) = []"
  "name_prop (new_node t) = []"
  "id_prop (new_node t) = []"
  "placeholder (new_node t) = None"
  "label_text (new_node t) = None"
  "value_prop (new_node t) = []"
  "defaultValue (new_node t) = []"
  "classList (new_node t) = []"
  "display (new_node t) = []"
  "textContent (new_node t) = []"
  "disabled (new_node t) = False"
  "browser_focusable (new_node t) = False"
  "parentNode (new_node t) = None"
  "childNodes (new_node t) = []"
  by (simp_all add: new_node_def)

lemma descendants_numeral [simp]:
  "descendants (numeral k) ns a
     = concat (map (\<lambda>c. c # descendants (pred_numeral k) ns c) (childNodes (ns a)))"
  by (simp add: numeral_eq_Suc)

lemmas init_defs =
  new_FormValidator_def setupFormValidation_def initializeForm_def initializeField_def
  createErrorElement_def createSuccessElement_def createElement_def appendChild_def
  removeChild_def getValidationRules_def getRequiredMessage_def field_identifier_def
  addEventListener_def querySelector_def querySelectorAll_def hasAttribute_def
  getAttribute_def to_string_def Let_def upd_node_def upd_field_def

lemma example_initialised:
  "new_FormValidator example_RegExp (example_document v) = (example_ready v, Inr ())"
  by (auto simp: example_document_def example_nodes_def example_RegExp_def example_ready_def
      example_form_def error_div_def success_div_def init_defs fun_eq_iff)

lemma shared_initialised:
  "new_FormValidator example_RegExp shared_document = (shared_ready, Inr ())"
  by (auto simp: shared_document_def shared_nodes_def example_RegExp_def shared_ready_def
      shared_form_def error_div_def success_div_def init_defs fun_eq_iff)

lemma disabled_initialised:
  "new_FormValidator example_RegExp disabled_document = (disabled_ready, Inr ())"
  by (auto simp: disabled_document_def disabled_ready_def example_document_def
      example_nodes_def example_RegExp_def example_ready_def example_form_def error_div_def
      success_div_def init_defs fun_eq_iff)

lemma being_rendered_numeral [simp]:
  "being_rendered (numeral k) s a =
     (display (nodes s a) \<noteq> js ''none''
      \<and> (case parentNode (nodes s a) of
             None \<Rightarrow> a = document_root s
           | Some p \<Rightarrow> being_rendered (pred_numeral k) s p))"
  by (simp add: numeral_eq_Suc)

lemma length_js [simp]: "length (js s) = length s"
  by (simp add: js_def)

lemma trim_examples:
  "trim (js ''bob'') = js ''bob''"
  "trim (js ''a@b.c'') = js ''a@b.c''"
  "trim (js ''  '') = []"
  "trim [] = []"
  by (simp_all add: trim_def js_def cu_def is_space_def)

lemma email_examples:
  "\<not> regex_test emailRegex (js ''bob'')"
  "regex_test emailRegex (js ''a@b.c'')"
  by (simp_all add: emailRegex_def not_space_at_def js_def cu_def is_space_def)

lemma example_passes:
  "\<not> field_passes (example_ready (js ''bob'')) 0"
  "field_passes (example_ready (js ''a@b.c'')) 0"
  "field_passes (example_ready v) 1"
  "field_passes (example_ready v) 2"
  using example_phone_passes
  by (simp_all add: field_passes_def example_ready_def example_nodes_def trim_examples
      email_examples trim_example_phone regex_phone_spec strip_separators_spec spec_phone_pass_def)

text \<open>Validation leaves the structure of the document alone.\<close>

lemma field_ops_structure [simp]:
  "next_node (clearFieldState s r) = next_node s"
  "next_node (setFieldError s r m) = next_node s"
  "next_node (setFieldSuccess s r) = next_node s"
  "tagName (nodes (clearFieldState s r) a) = tagName (nodes s a)"
  "tagName (nodes (setFieldError s r m) a) = tagName (nodes s a)"
  "tagName (nodes (setFieldSuccess s r) a) = tagName (nodes s a)"
  "attributes (nodes (clearFieldState s r) a) = attributes (nodes s a)"
  "attributes (nodes (setFieldError s r m) a) = attributes (nodes s a)"
  "attributes (nodes (setFieldSuccess s r) a) = attributes (nodes s a)"
  "childNodes (nodes (clearFieldState s r) a) = childNodes (nodes s a)"
  "childNodes (nodes (setFieldError s r m) a) = childNodes (nodes s a)"
  "childNodes (nodes (setFieldSuccess s r) a) = childNodes (nodes s a)"
  by (simp_all add: clearFieldState_def setFieldError_def setFieldSuccess_def Let_def
      classList_add_def classList_remove_def)

lemma validateField_structure [simp]:
  "next_node (fst (validateField s r)) = next_node s"
  "tagName (nodes (fst (validateField s r)) a) = tagName (nodes s a)"
  "attributes (nodes (fst (validateField s r)) a) = attributes (nodes s a)"
  "childNodes (nodes (fst (validateField s r)) a) = childNodes (nodes s a)"
  by (simp_all add: validateField_def Let_def split: option.splits)

lemma validate_fields_structure:
  "next_node (fst (validate_fields s rs acc)) = next_node s
   \<and> (\<forall>a. tagName (nodes (fst (validate_fields s rs acc)) a) = tagName (nodes s a))
   \<and> (\<forall>a. attributes (nodes (fst (validate_fields s rs acc)) a) = attributes (nodes s a))
   \<and> (\<forall>a. childNodes (nodes (fst (validate_fields s rs acc)) a) = childNodes (nodes s a))"
proof (induction rs arbitrary: s acc)
  case Nil
  show ?case by simp
next
  case (Cons r rs)
  show ?case
    unfolding validate_fields_Cons
    using Cons.IH[of "fst (validateField s r)" "acc \<and> field_passes s r"] by simp
qed

lemma descendants_cong:
  "(\<And>a. childNodes (ns' a) = childNodes (ns a)) \<Longrightarrow> descendants k ns' a = descendants k ns a"
  by (induction k arbitrary: a) simp_all

lemma submit_button_cong:
  assumes "next_node s' = next_node s"
    and "\<And>a. tagName (nodes s' a) = tagName (nodes s a)"
    and "\<And>a. attributes (nodes s' a) = attributes (nodes s a)"
    and "\<And>a. childNodes (nodes s' a) = childNodes (nodes s a)"
  shows "querySelector s' form SubmitButton = querySelector s form SubmitButton"
proof -
  have "descendants (next_node s') (nodes s') form = descendants (next_node s) (nodes s) form"
    using assms(1) descendants_cong[of "nodes s'" "nodes s", OF assms(4)] by simp
  then show ?thesis
    by (simp add: querySelector_def querySelectorAll_def assms(2,3) getAttribute_def)
qed

lemma validateForm_submit_button:
  "querySelector (fst (validateForm s fd)) form SubmitButton = querySelector s form SubmitButton"
  using validate_fields_structure[of s "map snd (form_fields fd)" True]
  by (intro submit_button_cong) (simp_all add: validateForm_def)

lemma submitForm_button:
  assumes "querySelector s (form_element fd) SubmitButton = Some b"
  shows "submitForm s fd
           = setTimeout (upd_node b (\<lambda>n. n\<lparr>disabled := True\<rparr>)
               (upd_node b (\<lambda>n. n\<lparr>textContent := js ''Submitting...''\<rparr>) s))
               (FinishSubmit fd (Some b)) 2000"
  using assms by (simp add: submitForm_def Let_def)

text \<open>What the completion of a submission writes into the submit control.\<close>

lemma fold_upd_node_attributes:
  "(\<And>i n. attributes (g i n) = attributes n) \<Longrightarrow>
     attributes (nodes (fold (\<lambda>i. upd_node i (g i)) xs s) a) = attributes (nodes s a)"
  by (induction xs arbitrary: s) simp_all

lemma fold_clear_attributes [simp]:
  "attributes (nodes (fold (\<lambda>r t. clearFieldState t r) rs s) a) = attributes (nodes s a)"
  by (induction rs arbitrary: s) simp_all

lemma showSuccessMessage_attributes:
  "a \<noteq> next_node s \<Longrightarrow>
     attributes (nodes (showSuccessMessage s form) a) = attributes (nodes s a)"
  by (simp add: showSuccessMessage_def createSuccessModal_def createElement_def appendChild_def
      removeChild_def setTimeout_def Let_def split: option.splits)

lemma finish_submit_label:
  assumes "b \<noteq> next_node s"
  shows "textContent (nodes (finish_submit s fd (Some b)) b)
           = js_or_str (attributes (nodes s b) (js ''data-original-text'')) (js ''Submit'')"
    and "\<not> disabled (nodes (finish_submit s fd (Some b)) b)"
proof -
  let ?s1 = "showSuccessMessage s (form_element fd)"
  let ?s2 = "form_reset ?s1 (form_element fd)"
  let ?s3 = "fold (\<lambda>r t. clearFieldState t r) (map snd (form_fields fd)) ?s2"
  have "attributes (nodes ?s2 b) = attributes (nodes ?s1 b)"
    unfolding form_reset_def by (rule fold_upd_node_attributes) simp
  then have "attributes (nodes ?s3 b) = attributes (nodes s b)"
    using assms by (simp add: showSuccessMessage_attributes)
  then show "textContent (nodes (finish_submit s fd (Some b)) b)
           = js_or_str (attributes (nodes s b) (js ''data-original-text'')) (js ''Submit'')"
    by (simp add: finish_submit_def Let_def getAttribute_def)
  show "\<not> disabled (nodes (finish_submit s fd (Some b)) b)"
    by (simp add: finish_submit_def Let_def)
qed

lemma handleSubmit_pass:
  assumes "\<forall>r\<in>set (tracked fd). field_passes s r"
  shows "handleSubmit s fd = submitForm (fst (validateForm s fd)) fd"
  using assms
  by (simp add: handleSubmit_def case_prod_beta validateForm_def tracked_def validate_fields_result)

lemma ascii_lower_submit:
  "map ascii_lower (js ''submit'') = js ''submit''"
  "map ascii_lower (js ''Submit'') = js ''submit''"
  by (simp_all add: js_def cu_def ascii_lower_def)

lemma submit_button_any_case:
  "matches SubmitButton
     ((new_node (js ''button''))\<lparr>attributes := [js ''type'' \<mapsto> js ''Submit'']\<rparr>)"
  by (simp add: getAttribute_def ascii_lower_submit)

lemma example_button: "querySelector (example_ready v) 1 SubmitButton = Some 8"
  by (simp add: example_ready_def example_nodes_def querySelector_def querySelectorAll_def
      getAttribute_def error_div_def success_div_def ascii_lower_submit)

lemma example_fields:
  "field_objs (example_ready v) 0 =
     \<lparr>element = 3, isValid = False,
      rules = [Required (js ''Email is required''),
               Email (js ''Please enter a valid email address'')],
      errorElement = 9, successElement = 10\<rparr>"
  "field_objs (example_ready v) 1 =
     \<lparr>element = 5, isValid = False,
      rules = [Phone (js ''Please enter a valid phone number'')],
      errorElement = 11, successElement = 12\<rparr>"
  "field_objs (example_ready v) 2 =
     \<lparr>element = 7, isValid = False, rules = [], errorElement = 13, successElement = 14\<rparr>"
  by (simp_all add: example_ready_def)

lemma example_inputs:
  "nodes (example_ready v) 3 =
     (new_node (js ''input''))
       \<lparr>attributes := [js ''required'' \<mapsto> []],
        type_prop := js ''email'', name_prop := js ''email'',
        placeholder := Some (js ''Email''), value_prop := v,
        browser_focusable := True, parentNode := Some 2\<rparr>"
  "nodes (example_ready v) 5 =
     (new_node (js ''input''))
       \<lparr>type_prop := js ''tel'', name_prop := js ''phone'',
        value_prop := js ''(555) 123-4567'', browser_focusable := True,
        parentNode := Some 4\<rparr>"
  "nodes (example_ready v) 7 =
     (new_node (js ''input''))
       \<lparr>type_prop := js ''text'', name_prop := js ''nick'',
        browser_focusable := True, parentNode := Some 6\<rparr>"
  "nodes (example_ready v) 8 =
     (new_node (js ''button''))
       \<lparr>attributes := [js ''type'' \<mapsto> js ''submit''],
        textContent := js ''Register'', browser_focusable := True, parentNode := Some 1\<rparr>"
  by (simp_all add: example_ready_def example_nodes_def)

lemma example_misc:
  "timers (example_ready v) = []"
  "next_node (example_ready v) = 15"
  "forms (example_ready v) = [example_form]"
  "tracked example_form = [0, 1, 2]"
  "form_element example_form = 1"
  "form_isValid example_form = False"
  by (simp_all add: example_ready_def example_form_def tracked_def)

lemma example_rules:
  "getValidationRules example_RegExp (nodes (example_ready v) 3)
     = Inr [Required (js ''Email is required''),
            Email (js ''Please enter a valid email address'')]"
  "getValidationRules example_RegExp (nodes (example_ready v) 7) = Inr []"
  by (simp_all add: example_inputs getValidationRules_def getRequiredMessage_def
      field_identifier_def hasAttribute_def getAttribute_def Let_def)

text \<open>
  \<^bold>\<open>C6\<close> at the example page with every field valid. The submit event disables the button
  and relabels it "Submitting...", and queues the timer of 2000 ms. When the timer expires
  the button is enabled again, but its label is "Submit", not the label "Register" it had
  before the submission began: \<^verbatim>\<open>submitForm\<close> reads the original label into
  \<^verbatim>\<open>originalText\<close> and never uses it; the label is restored from the attribute
  \<^verbatim>\<open>data-original-text\<close>, which the button does not have.
\<close>

theorem submit_label_not_restored:
  "textContent (nodes (example_ready (js ''a@b.c'')) 8) = js ''Register''
   \<and> timers (handleSubmit (example_ready (js ''a@b.c'')) example_form)
       = [(2000, FinishSubmit example_form (Some 8))]
   \<and> textContent (nodes (handleSubmit (example_ready (js ''a@b.c'')) example_form) 8)
       = js ''Submitting...''
   \<and> disabled (nodes (handleSubmit (example_ready (js ''a@b.c'')) example_form) 8)
   \<and> textContent (nodes (fire_timer (handleSubmit (example_ready (js ''a@b.c'')) example_form) 0) 8)
       = js ''Submit''
   \<and> \<not> disabled (nodes (fire_timer (handleSubmit (example_ready (js ''a@b.c'')) example_form) 0) 8)"
proof -
  let ?s = "example_ready (js ''a@b.c'')"
  let ?s1 = "fst (validateForm ?s example_form)"
  let ?s2 = "handleSubmit ?s example_form"
  have vf: "validateForm ?s example_form = validate_fields ?s [0, 1, 2] True"
    by (simp add: validateForm_def example_form_def)
  note frame = validate_fields_props[of ?s "[0, 1, 2]" True, folded vf]
  note struct = validate_fields_structure[of ?s "[0, 1, 2]" True, folded vf]
  have pass: "\<forall>r\<in>set (tracked example_form). field_passes ?s r"
    using example_passes(2-4) by (simp add: example_misc)
  have btn: "querySelector ?s1 (form_element example_form) SubmitButton = Some 8"
    using example_button by (simp add: validateForm_submit_button example_misc)
  have s2: "?s2 = setTimeout (upd_node 8 (\<lambda>n. n\<lparr>disabled := True\<rparr>)
               (upd_node 8 (\<lambda>n. n\<lparr>textContent := js ''Submitting...''\<rparr>) ?s1))
               (FinishSubmit example_form (Some 8)) 2000"
    using handleSubmit_pass[OF pass] submitForm_button[OF btn] by simp
  have t1: "timers ?s1 = []" using frame by (simp add: example_misc)
  have t2: "timers ?s2 = [(2000, FinishSubmit example_form (Some 8))]"
    by (simp add: s2 setTimeout_def t1)
  have a: "textContent (nodes ?s 8) = js ''Register''"
    by (simp add: example_inputs)
  have b: "textContent (nodes ?s2 8) = js ''Submitting...''" "disabled (nodes ?s2 8)"
    by (simp_all add: s2 setTimeout_def)
  let ?s3 = "?s2\<lparr>timers := take 0 (timers ?s2) @ drop (Suc 0) (timers ?s2)\<rparr>"
  have fire: "fire_timer ?s2 0 = finish_submit ?s3 example_form (Some 8)"
    by (simp add: fire_timer_def t2)
  have n: "8 \<noteq> next_node ?s3"
    using struct by (simp add: s2 setTimeout_def example_misc)
  have at: "attributes (nodes ?s2 8) (js ''data-original-text'') = None"
    using struct by (simp add: s2 setTimeout_def example_inputs)
  have c: "textContent (nodes (fire_timer ?s2 0) 8) = js ''Submit''"
    "\<not> disabled (nodes (fire_timer ?s2 0) 8)"
    using finish_submit_label[OF n, of example_form] at by (simp_all add: fire)
  from a t2 b c show ?thesis by simp
qed

lemma broken_inputs:
  "querySelectorAll broken_document 1 (ByTags [js ''input'', js ''textarea'', js ''select''])
     = [2] @ 3 # [4]"
  "querySelectorAll broken_document 0 FormDataValidate = [1, 5]"
  by (simp_all add: broken_document_def broken_nodes_def querySelectorAll_def hasAttribute_def)

lemma broken_first_field:
  "init_fields example_RegExp broken_document
     \<lparr>form_element = 1, form_fields = [], form_isValid = False\<rparr> [2]
     = (broken_after, Inr broken_form)"
  by (auto simp: broken_document_def broken_nodes_def broken_after_def broken_form_def
      example_RegExp_def error_div_def success_div_def init_defs fun_eq_iff)

lemma broken_pattern:
  "hasAttribute (nodes broken_after 3) (js ''pattern'')"
  "example_RegExp (to_string (getAttribute (nodes broken_after 3) (js ''pattern''))) = Inl SyntaxError"
  by (simp_all add: broken_after_def broken_nodes_def hasAttribute_def getAttribute_def
      to_string_def example_RegExp_def)

lemma broken_initialised:
  "new_FormValidator example_RegExp broken_document = (broken_after, Inl SyntaxError)"
proof -
  have g: "getValidationRules example_RegExp (nodes broken_after 3) = Inl SyntaxError"
    using broken_pattern by (simp add: getValidationRules_def Let_def)
  have "init_fields example_RegExp broken_after broken_form (3 # [4]) = (broken_after, Inl SyntaxError)"
    using g by (simp add: initializeField_def)
  then have "init_fields example_RegExp broken_document
     \<lparr>form_element = 1, form_fields = [], form_isValid = False\<rparr> ([2] @ 3 # [4])
     = (broken_after, Inl SyntaxError)"
    using broken_first_field by (simp only: init_fields_append) simp
  then have "initializeForm example_RegExp broken_document 1 = (broken_after, Inl SyntaxError)"
    using broken_inputs(1) by (simp add: initializeForm_def Let_def)
  then have "init_forms example_RegExp broken_document [1, 5] = (broken_after, Inl SyntaxError)"
    by simp
  moreover have "broken_document\<lparr>forms := []\<rparr> = broken_document"
    by (simp add: broken_document_def)
  moreover have "document_root broken_document = 0"
    by (simp add: broken_document_def)
  ultimately show ?thesis
    using broken_inputs(2) by (simp add: new_FormValidator_def setupFormValidation_def)
qed

text \<open>
  \<^bold>\<open>C8\<close> as stated fails at the page with the pattern \<^verbatim>\<open>(\<close>: the construction of the
  validator ends with the SyntaxError; the field before the offending one has its two
  listeners, but the third field of the same form has none, no form is registered, and
  the second form and its field are never reached.
\<close>

theorem later_fields_and_forms_not_initialised:
  "new_FormValidator example_RegExp broken_document = (broken_after, Inl SyntaxError)
   \<and> querySelectorAll broken_document 0 FormDataValidate = [1, 5]
   \<and> querySelectorAll broken_document 1 (ByTags [js ''input'', js ''textarea'', js ''select''])
       = [2, 3, 4]
   \<and> forms broken_after = []
   \<and> listeners broken_after
       = [(2, js ''blur'', OnBlurValidate 0), (2, js ''input'', OnInputClear 0)]
   \<and> next_field broken_after = 1"
  using broken_initialised broken_inputs by (simp add: broken_after_def)

text \<open>The amended C8 at the same page.\<close>

theorem invalid_pattern_aborts_initialization_witness:
  "hasAttribute (nodes broken_after 3) (js ''pattern'')
   \<and> example_RegExp (to_string (getAttribute (nodes broken_after 3) (js ''pattern'')))
       = Inl SyntaxError
   \<and> querySelectorAll broken_document 1 (ByTags [js ''input'', js ''textarea'', js ''select''])
       = [2] @ 3 # [4]
   \<and> init_fields example_RegExp broken_document
         \<lparr>form_element = 1, form_fields = [], form_isValid = False\<rparr> [2]
       = (broken_after, Inr broken_form)
   \<and> getValidationRules example_RegExp (nodes broken_after 3) = Inl SyntaxError
   \<and> initializeField example_RegExp broken_after broken_form 3 = (broken_after, Inl SyntaxError)
   \<and> init_fields example_RegExp broken_after broken_form (3 # [4]) = (broken_after, Inl SyntaxError)
   \<and> initializeForm example_RegExp broken_document 1 = (broken_after, Inl SyntaxError)
   \<and> forms broken_after = forms broken_document
   \<and> init_forms example_RegExp broken_document (1 # [5]) = (broken_after, Inl SyntaxError)"
proof -
  note t = invalid_pattern_aborts_initialization
      [where s = broken_after and input = 3 and RegExp = example_RegExp and e = SyntaxError
         and fd = broken_form and later = "[4]", OF broken_pattern]
  from t have "\<And>later_forms.
      initializeForm example_RegExp broken_document 1 = (broken_after, Inl SyntaxError)
      \<and> forms broken_after = forms broken_document
      \<and> init_forms example_RegExp broken_document (1 # later_forms)
          = (broken_after, Inl SyntaxError)"
    using broken_inputs(1) broken_first_field by blast
  with t broken_pattern broken_inputs(1) broken_first_field show ?thesis by blast
qed

section \<open>The properties at the example documents\<close>

lemma submitForm_fields [simp]: "field_objs (submitForm s fd) = field_objs s"
  by (simp add: submitForm_def setTimeout_def Let_def split: option.splits)

lemma setFieldError_keeps_success:
  assumes "successElement (field_objs s r) \<noteq> errorElement (field_objs s r)"
  shows "display (nodes (setFieldError s r m) (successElement (field_objs s r)))
           = display (nodes s (successElement (field_objs s r)))"
  using assms
  by (auto simp: setFieldError_def Let_def classList_add_def classList_remove_def)

lemma setFieldSuccess_keeps_error:
  assumes "successElement (field_objs s r) \<noteq> errorElement (field_objs s r)"
  shows "display (nodes (setFieldSuccess s r) (errorElement (field_objs s r)))
           = display (nodes s (errorElement (field_objs s r)))"
  using assms
  by (auto simp: setFieldSuccess_def Let_def classList_add_def classList_remove_def)

text \<open>
  C1 at the example page: the required e-mail field holding \<^verbatim>\<open>bob\<close> passes its Required
  rule and fails its Email rule, whose message is shown.
\<close>

theorem validateField_reports_first_failing_rule_witness:
  "getValidationRules example_RegExp
       (nodes (example_ready (js ''bob'')) (element (field_objs (example_ready (js ''bob'')) 0)))
     = Inr (rules (field_objs (example_ready (js ''bob'')) 0))
   \<and> map rule_type (rules (field_objs (example_ready (js ''bob'')) 0))
       = filter (spec_activates (nodes (example_ready (js ''bob'')) 3)) spec_rule_order
   \<and> map rule_type (rules (field_objs (example_ready (js ''bob'')) 0)) = [TRequired, TEmail]
   \<and> snd (validateField (example_ready (js ''bob'')) 0) = False
   \<and> textContent (nodes (fst (validateField (example_ready (js ''bob'')) 0)) 9)
       = js ''Please enter a valid email address''
   \<and> display (nodes (fst (validateField (example_ready (js ''bob'')) 0)) 9) = js ''block''"
proof -
  let ?s = "example_ready (js ''bob'')"
  have h: "getValidationRules example_RegExp (nodes ?s (element (field_objs ?s 0)))
             = Inr (rules (field_objs ?s 0))"
    by (simp add: example_fields example_rules)
  have f: "find (\<lambda>rule. \<not> res_isValid (runValidationRule rule
                   (trim (value_prop (nodes ?s (element (field_objs ?s 0)))))))
             (rules (field_objs ?s 0))
           = Some (Email (js ''Please enter a valid email address''))"
    by (simp add: example_fields example_inputs trim_examples email_examples)
  from validateField_reports_first_failing_rule[OF h] h show ?thesis
    unfolding f by (simp add: example_fields)
qed

text \<open>C2 at the example page, the e-mail field holding two spaces.\<close>

theorem required_rejects_blank_value_witness:
  "find (\<lambda>rule. rule_type rule = TRequired) (rules (field_objs (example_ready (js ''  '')) 0))
     = Some (Required (js ''Email is required''))
   \<and> value_prop (nodes (example_ready (js ''  ''))
         (element (field_objs (example_ready (js ''  '')) 0))) = js ''  ''
   \<and> list_all is_space (js ''  '')
   \<and> snd (validateField (example_ready (js ''  '')) 0) = False
   \<and> \<not> isValid (field_objs (fst (validateField (example_ready (js ''  '')) 0)) 0)
   \<and> textContent (nodes (fst (validateField (example_ready (js ''  '')) 0)) 9)
       = js ''Email is required''
   \<and> display (nodes (fst (validateField (example_ready (js ''  '')) 0)) 9) = js ''block''"
proof -
  let ?s = "example_ready (js ''  '')"
  have h1: "find (\<lambda>rule. rule_type rule = TRequired) (rules (field_objs ?s 0))
              = Some (Required (js ''Email is required''))"
    by (simp add: example_fields)
  have v: "value_prop (nodes ?s (element (field_objs ?s 0))) = js ''  ''"
    by (simp add: example_fields example_inputs)
  have b: "list_all is_space (js ''  '')"
    by (simp add: js_def cu_def is_space_def)
  have h2: "\<forall>c\<in>set (value_prop (nodes ?s (element (field_objs ?s 0)))). is_space c"
    using b unfolding v by (simp add: list_all_iff)
  from required_rejects_blank_value[OF h1 h2] h1 v b show ?thesis
    by (simp add: example_fields)
qed

text \<open>C3 at the example page, whose phone field holds \<^verbatim>\<open>(555) 123-4567\<close>.\<close>

theorem phone_rule_pass_condition_witness:
  "rules (field_objs (example_ready (js ''bob'')) 1)
     = [Phone (js ''Please enter a valid phone number'')]
   \<and> value_prop (nodes (example_ready (js ''bob''))
        (element (field_objs (example_ready (js ''bob'')) 1))) = js ''(555) 123-4567''
   \<and> snd (validateField (example_ready (js ''bob'')) 1) = True
   \<and> res_isValid (runValidationRule (Phone (js ''Please enter a valid phone number''))
        (js ''(555) 123-4567''))
   \<and> res_isValid (runValidationRule (Phone (js ''Please enter a valid phone number''))
        (js ''0800'')) = spec_phone_pass (js ''0800'')"
proof -
  let ?s = "example_ready (js ''bob'')"
  have h1: "\<forall>rule\<in>set (rules (field_objs ?s 1)).
              rule_type rule = TRequired \<or> rule_type rule = TPhone"
    using example_fields(2)[of "js ''bob''"] by simp
  have h2: "value_prop (nodes ?s (element (field_objs ?s 1))) = js ''(555) 123-4567''"
    using example_fields(2)[of "js ''bob''"] example_inputs(2)[of "js ''bob''"] by simp
  have r: "rules (field_objs ?s 1) = [Phone (js ''Please enter a valid phone number'')]"
    using example_fields(2)[of "js ''bob''"] by simp
  from phone_rule_pass_condition
         [of "js ''Please enter a valid phone number''" "js ''0800''" ?s 1] h1 h2 r
  show ?thesis by blast
qed

text \<open>C4 at the example page, the e-mail field cleared after a failed validation.\<close>

theorem clearFieldState_neutral_witness:
  "\<not> isValid (field_objs (clearFieldState (fst (validateField (example_ready (js ''bob'')) 0)) 0) 0)
   \<and> display (nodes (clearFieldState (fst (validateField (example_ready (js ''bob'')) 0)) 0) 9)
       = js ''none''
   \<and> display (nodes (clearFieldState (fst (validateField (example_ready (js ''bob'')) 0)) 0) 10)
       = js ''none''
   \<and> error_class \<notin> set (classList
         (nodes (clearFieldState (fst (validateField (example_ready (js ''bob'')) 0)) 0) 3))
   \<and> success_class \<notin> set (classList
         (nodes (clearFieldState (fst (validateField (example_ready (js ''bob'')) 0)) 0) 3))"
  using clearFieldState_neutral[of "fst (validateField (example_ready (js ''bob'')) 0)" 0]
  by (simp add: example_fields)

lemma shared_fields:
  "field_objs shared_ready 0 =
     \<lparr>element = 2, isValid = False,
      rules = [Required (js ''This field is required''),
               Email (js ''Please enter a valid email address'')],
      errorElement = 4, successElement = 5\<rparr>"
  "field_objs shared_ready 1 =
     \<lparr>element = 3, isValid = False, rules = [], errorElement = 4, successElement = 5\<rparr>"
  by (simp_all add: shared_ready_def)

lemma shared_misc:
  "tracked shared_form = [0, 1]"
  "timers shared_ready = []"
  "activeElement shared_ready = None"
  "next_node shared_ready = 6"
  "document_root shared_ready = 0"
  by (simp_all add: shared_ready_def shared_form_def tracked_def)

lemma shared_chain:
  "display (nodes shared_ready 2) = []" "parentNode (nodes shared_ready 2) = Some 1"
  "display (nodes shared_ready 1) = []" "parentNode (nodes shared_ready 1) = Some 0"
  "display (nodes shared_ready 0) = []" "parentNode (nodes shared_ready 0) = None"
  "browser_focusable (nodes shared_ready 2)" "\<not> disabled (nodes shared_ready 2)"
  "type_prop (nodes shared_ready 2) = js ''email''"
  "value_prop (nodes shared_ready 2) = js ''bob''"
  by (simp_all add: shared_ready_def shared_nodes_def)

lemma shared_passes:
  "\<not> field_passes shared_ready 0"
  "field_passes shared_ready 1"
  using shared_fields shared_chain
  by (simp_all add: field_passes_def trim_examples email_examples)

text \<open>
  The amended C5 at two pages. At the page with the shared indicators the e-mail field
  fails and the field without rules passes: the walk in insertion order leaves the error
  element hidden and the success element shown, the submission is blocked and the focus
  moves to the e-mail control. At the example page with \<^verbatim>\<open>a@b.c\<close> the submission
  sequence starts.
\<close>

theorem handleSubmit_gate_witness:
  "fst (validateForm shared_ready shared_form)
     = fst (validateField (fst (validateField shared_ready 0)) 1)
   \<and> display (nodes (fst (validateForm shared_ready shared_form)) 4) = js ''none''
   \<and> display (nodes (fst (validateForm shared_ready shared_form)) 5) = js ''block''
   \<and> \<not> snd (validateForm shared_ready shared_form)
   \<and> \<not> isValid (field_objs (fst (validateForm shared_ready shared_form)) 0)
   \<and> isValid (field_objs (fst (validateForm shared_ready shared_form)) 1)
   \<and> focusable (fst (validateForm shared_ready shared_form)) 2
   \<and> activeElement (handleSubmit shared_ready shared_form) = Some 2
   \<and> timers (handleSubmit shared_ready shared_form) = []
   \<and> snd (validateForm (example_ready (js ''a@b.c'')) example_form)
   \<and> handleSubmit (example_ready (js ''a@b.c'')) example_form
       = submitForm (fst (validateForm (example_ready (js ''a@b.c'')) example_form)) example_form
   \<and> timers (handleSubmit (example_ready (js ''a@b.c'')) example_form)
       = [(2000, FinishSubmit example_form (Some 8))]"
proof -
  let ?a = shared_ready
  let ?f = shared_form
  let ?a1 = "fst (validateForm ?a ?f)"
  let ?b = "example_ready (js ''a@b.c'')"
  note ta = handleSubmit_gate[of ?a ?f 0 True]
  note tb = handleSubmit_gate[of ?b example_form 0 True]
  from ta have "?a1 = fold (\<lambda>r t. fst (validateField t r)) (tracked ?f) ?a"
    by blast
  then have walk: "?a1 = fst (validateField (fst (validateField ?a 0)) 1)"
    by (simp add: shared_misc)
  let ?t0 = "fst (validateField ?a 0)"
  let ?c = "clearFieldState ?t0 1"
  have fo: "field_objs ?a 1 =
     \<lparr>element = 3, isValid = False, rules = [], errorElement = 4, successElement = 5\<rparr>"
    by (rule shared_fields(2))
  have last: "fst (validateField ?t0 1) = setFieldSuccess ?c 1"
    using validateField_pass[of ?t0 1] fo by simp
  have d5: "display (nodes ?a1 5) = js ''block''"
    using setFieldSuccess_shows(1)[of ?c 1] walk last fo by simp
  have d4: "display (nodes ?a1 4) = js ''none''"
    using setFieldSuccess_keeps_error[of ?c 1] clearFieldState_hides(1)[of ?t0 1] walk last fo
    by simp
  from ta have "snd (validateForm ?a ?f) = (\<forall>r\<in>set (tracked ?f). field_passes ?a r)"
    by blast
  then have na: "\<not> snd (validateForm ?a ?f)"
    using shared_passes(1) by (simp add: shared_misc)
  from ta have "\<forall>r\<in>set (tracked ?f). isValid (field_objs ?a1 r) = field_passes ?a r"
    by blast
  then have v0: "\<not> isValid (field_objs ?a1 0)" and v1: "isValid (field_objs ?a1 1)"
    using shared_passes by (simp_all add: shared_misc)
  have vf: "validateForm ?a ?f = validate_fields ?a [0, 1] True"
    using shared_misc(1) by (simp add: validateForm_walk)
  note props = validate_fields_props[of ?a "[0, 1]" True, folded vf]
  note fprops = validate_fields_focus_frame[of ?a "[0, 1]" True, folded vf]
  note struct = validate_fields_structure[of ?a "[0, 1]" True, folded vf]
  have k: "display (nodes ?a1 2) = []" "display (nodes ?a1 1) = []" "display (nodes ?a1 0) = []"
    using fprops shared_fields shared_chain(1,3,5) by simp_all
  have p: "parentNode (nodes ?a1 2) = Some 1" "parentNode (nodes ?a1 1) = Some 0"
    "parentNode (nodes ?a1 0) = None"
    using fprops shared_chain(2,4,6) by simp_all
  have r: "document_root ?a1 = 0" "next_node ?a1 = 6"
    using fprops struct shared_misc(4,5) by simp_all
  have o: "browser_focusable (nodes ?a1 2)" "\<not> disabled (nodes ?a1 2)"
    "type_prop (nodes ?a1 2) = js ''email''"
    using fprops props shared_chain(7,8,9) by simp_all
  have foc: "focusable ?a1 2"
    using k p r o by (simp add: focusable_def)
  have fa: "find (\<lambda>r. \<not> field_passes ?a r) (tracked ?f) = Some 0"
    using shared_passes(1) by (simp add: shared_misc)
  from ta na obtain r where
    "find (\<lambda>r. \<not> field_passes ?a r) (tracked ?f) = Some r"
    "activeElement (handleSubmit ?a ?f)
      = (if focusable ?a1 (element (field_objs ?a r)) then Some (element (field_objs ?a r))
         else activeElement ?a)"
    by blast
  with fa have "activeElement (handleSubmit ?a ?f)
      = (if focusable ?a1 (element (field_objs ?a 0)) then Some (element (field_objs ?a 0))
         else activeElement ?a)"
    by simp
  then have act: "activeElement (handleSubmit ?a ?f) = Some 2"
    using foc shared_fields(1) by simp
  from ta na have "timers (handleSubmit ?a ?f) = timers ?a"
    by blast
  then have tma: "timers (handleSubmit ?a ?f) = []"
    by (simp add: shared_misc)
  from tb have "snd (validateForm ?b example_form)
      = (\<forall>r\<in>set (tracked example_form). field_passes ?b r)"
    by blast
  then have pb: "snd (validateForm ?b example_form)"
    using example_passes(2-4) by (simp add: example_misc)
  have btn: "querySelector (fst (validateForm ?b example_form)) 1 SubmitButton = Some 8"
    using example_button by (simp add: validateForm_submit_button)
  have hb: "handleSubmit ?b example_form = submitForm (fst (validateForm ?b example_form)) example_form"
    using tb pb by blast
  from tb pb have "timers (handleSubmit ?b example_form)
      = timers ?b @ [(2000, FinishSubmit example_form
           (querySelector (fst (validateForm ?b example_form)) (form_element example_form)
              SubmitButton))]"
    by blast
  then have tmb: "timers (handleSubmit ?b example_form)
      = [(2000, FinishSubmit example_form (Some 8))]"
    by (simp only: btn example_misc append_Nil)
  from walk d4 d5 na v0 v1 foc act tma pb hb tmb show ?thesis by blast
qed

lemma field_passes_disabled [simp]:
  "field_passes (upd_node a (\<lambda>n. n\<lparr>disabled := b\<rparr>) s) r = field_passes s r"
  by (simp add: field_passes_def)

text \<open>
  \<^bold>\<open>C5\<close> as stated fails at the example page with the disabled e-mail control: the field
  of that control is the first whose \<^verbatim>\<open>isValid\<close> is false after the validation, and
  the focus does not move to it; no element is active before the submit event and none is
  after it.
\<close>

theorem focus_stays_off_disabled_field:
  "new_FormValidator example_RegExp disabled_document = (disabled_ready, Inr ())
   \<and> disabled (nodes disabled_ready 3)
   \<and> \<not> snd (validateForm disabled_ready example_form)
   \<and> find (\<lambda>r. \<not> isValid (field_objs (fst (validateForm disabled_ready example_form)) r))
        (tracked example_form) = Some 0
   \<and> element (field_objs (fst (validateForm disabled_ready example_form)) 0) = 3
   \<and> activeElement disabled_ready = None
   \<and> activeElement (handleSubmit disabled_ready example_form) = None"
proof -
  let ?d = disabled_ready
  let ?d1 = "fst (validateForm ?d example_form)"
  have vf: "validateForm ?d example_form = validate_fields ?d [0, 1, 2] True"
    using example_misc(4) by (simp add: validateForm_walk)
  note props = validate_fields_props[of ?d "[0, 1, 2]" True, folded vf]
  have dis: "disabled (nodes ?d 3)"
    by (simp add: disabled_ready_def)
  have fo: "field_objs ?d 0 = field_objs (example_ready (js ''bob'')) 0"
    by (simp add: disabled_ready_def)
  have p0: "\<not> field_passes ?d 0"
    using example_passes(1) by (simp add: disabled_ready_def)
  have "snd (validateForm ?d example_form)
          = (\<forall>r\<in>set (tracked example_form). field_passes ?d r)"
    by (simp only: validateForm_walk validate_fields_result simp_thms)
  then have nv: "\<not> snd (validateForm ?d example_form)"
    using p0 by (simp add: example_misc)
  have fa: "find (\<lambda>r. \<not> field_passes ?d r) (tracked example_form) = Some 0"
    using p0 by (simp add: example_misc)
  from handleSubmit_fail[OF nv] fa
  have fi: "find (\<lambda>r. \<not> isValid (field_objs ?d1 r)) (tracked example_form) = Some 0"
    and h: "handleSubmit ?d example_form = focus ?d1 (element (field_objs ?d 0))"
    by auto
  have el: "element (field_objs ?d 0) = 3" "element (field_objs ?d1 0) = 3"
    using props by (simp_all add: fo example_fields)
  have nf: "\<not> focusable ?d1 3"
    using props dis by (simp add: focusable_def)
  have a0: "activeElement ?d = None"
    by (simp add: disabled_ready_def example_ready_def)
  have a1: "activeElement (handleSubmit ?d example_form) = None"
    using props nf a0 by (simp add: h el focus_activeElement)
  from disabled_initialised dis nv fi el a0 a1 show ?thesis by blast
qed

text \<open>
  \<^bold>\<open>C7\<close> as stated fails at the example page: after a submit event on the form with every
  field valid, the \<^verbatim>\<open>isValid\<close> of each of the three tracked fields is true, and the
  \<^verbatim>\<open>isValid\<close> of the registered form object is false.
\<close>

theorem form_isValid_stays_false:
  "forms (handleSubmit (example_ready (js ''a@b.c'')) example_form) = [example_form]
   \<and> tracked example_form = [0, 1, 2]
   \<and> isValid (field_objs (handleSubmit (example_ready (js ''a@b.c'')) example_form) 0)
   \<and> isValid (field_objs (handleSubmit (example_ready (js ''a@b.c'')) example_form) 1)
   \<and> isValid (field_objs (handleSubmit (example_ready (js ''a@b.c'')) example_form) 2)
   \<and> \<not> form_isValid example_form
   \<and> \<not> spec_form_isValid (handleSubmit (example_ready (js ''a@b.c'')) example_form)
         example_form"
proof -
  let ?s = "example_ready (js ''a@b.c'')"
  have vf: "validateForm ?s example_form = validate_fields ?s [0, 1, 2] True"
    by (simp add: validateForm_def example_form_def)
  note frame = validate_fields_props[of ?s "[0, 1, 2]" True, folded vf]
  have pass: "\<forall>r\<in>set (tracked example_form). field_passes ?s r"
    using example_passes(2-4) by (simp add: example_misc)
  have h: "handleSubmit ?s example_form = submitForm (fst (validateForm ?s example_form)) example_form"
    using pass by (rule handleSubmit_pass)
  have v: "isValid (field_objs (handleSubmit ?s example_form) 0)"
    "isValid (field_objs (handleSubmit ?s example_form) 1)"
    "isValid (field_objs (handleSubmit ?s example_form) 2)"
    using frame example_passes(2-4) by (simp_all add: h)
  have f: "forms (handleSubmit ?s example_form) = [example_form]"
    by (simp add: handleSubmit_forms example_misc)
  from v f show ?thesis
    by (simp add: spec_form_isValid_def example_misc)
qed

text \<open>The amended C7 at the example page.\<close>

theorem form_isValid_never_recomputed_witness:
  "initializeForm example_RegExp (example_document (js ''a@b.c'')) 1
     = (example_ready (js ''a@b.c''), Inr ())
   \<and> (\<exists>fd. forms (example_ready (js ''a@b.c''))
              = forms (example_document (js ''a@b.c'')) @ [fd] \<and> form_isValid fd = False)
   \<and> forms (handleSubmit (example_ready (js ''a@b.c'')) example_form)
       = forms (example_ready (js ''a@b.c''))
   \<and> snd (validateForm (example_ready (js ''a@b.c'')) example_form)
       = (\<forall>r\<in>set (tracked example_form).
            isValid (field_objs (fst (validateForm (example_ready (js ''a@b.c'')) example_form)) r))"
proof -
  let ?d = "example_document (js ''a@b.c'')"
  let ?s = "example_ready (js ''a@b.c'')"
  have q: "querySelectorAll (?d\<lparr>forms := []\<rparr>) (document_root (?d\<lparr>forms := []\<rparr>)) FormDataValidate = [1]"
    by (simp add: example_document_def example_nodes_def querySelectorAll_def hasAttribute_def)
  have d: "?d\<lparr>forms := []\<rparr> = ?d"
    by (simp add: example_document_def)
  have "init_forms example_RegExp ?d [1] = (?s, Inr ())"
    using example_initialised[of "js ''a@b.c''"] q
    by (simp add: new_FormValidator_def setupFormValidation_def d)
  then have i: "initializeForm example_RegExp ?d 1 = (?s, Inr ())"
    by (cases "initializeForm example_RegExp ?d 1") (auto split: sum.splits)
  from form_isValid_never_recomputed
         [where RegExp = example_RegExp and s = ?d and form = 1 and s' = ?s and u = "()"] i
  have a: "\<exists>fd. forms ?s = forms ?d @ [fd] \<and> form_isValid fd = False"
    by blast
  from form_isValid_never_recomputed[where s = ?s and fd = example_form]
  have b: "forms (handleSubmit ?s example_form) = forms ?s"
    "snd (validateForm ?s example_form)
       = (\<forall>r\<in>set (tracked example_form).
            isValid (field_objs (fst (validateForm ?s example_form)) r))"
    by blast+
  from i a b show ?thesis by blast
qed

text \<open>
  \<^bold>\<open>C9\<close> as stated fails at the example page: the field without rules has been validated
  and shows its success indicator; \<^verbatim>\<open>setFieldError\<close> on it, as a single operation, shows
  the error indicator and leaves the success indicator visible.
\<close>

theorem setFieldError_leaves_success_visible:
  "indicators_exclusive (fst (validateField (example_ready (js ''bob'')) 2)) 2
   \<and> display (nodes (fst (validateField (example_ready (js ''bob'')) 2)) 14) = js ''block''
   \<and> display (nodes (setFieldError (fst (validateField (example_ready (js ''bob'')) 2)) 2
        (js ''Please match the requested format'')) 13) = js ''block''
   \<and> display (nodes (setFieldError (fst (validateField (example_ready (js ''bob'')) 2)) 2
        (js ''Please match the requested format'')) 14) = js ''block''
   \<and> \<not> indicators_exclusive
        (setFieldError (fst (validateField (example_ready (js ''bob'')) 2)) 2
           (js ''Please match the requested format'')) 2"
proof -
  let ?s = "example_ready (js ''bob'')"
  let ?c = "clearFieldState ?s 2"
  let ?s1 = "fst (validateField ?s 2)"
  let ?s2 = "setFieldError ?s1 2 (js ''Please match the requested format'')"
  have fo: "field_objs ?s 2 =
     \<lparr>element = 7, isValid = False, rules = [], errorElement = 13, successElement = 14\<rparr>"
    by (rule example_fields(3))
  have s1: "?s1 = setFieldSuccess ?c 2"
    using validateField_pass[of ?s 2] by (simp add: fo)
  have d14: "display (nodes ?s1 14) = js ''block''"
    using setFieldSuccess_shows(1)[of ?c 2] by (simp add: s1 fo)
  have d13: "display (nodes ?s1 13) = js ''none''"
    using setFieldSuccess_keeps_error[of ?c 2] clearFieldState_hides(1)[of ?s 2]
    by (simp add: s1 fo)
  have e13: "display (nodes ?s2 13) = js ''block''"
    using setFieldError_shows(2)[of ?s1 2] by (simp add: fo)
  have e14: "display (nodes ?s2 14) = js ''block''"
    using setFieldError_keeps_success[of ?s1 2] d14 by (simp add: fo)
  have x1: "indicators_exclusive ?s1 2"
    using d13 by (simp add: indicators_exclusive_def fo)
  have x2: "\<not> indicators_exclusive ?s2 2"
    using e13 e14 by (simp add: indicators_exclusive_def fo)
  from x1 d14 e13 e14 x2 show ?thesis by blast
qed

text \<open>The amended C9 at the example page, on the cleared field without rules.\<close>

theorem field_operations_exclusive_witness:
  "errorElement (field_objs (clearFieldState (example_ready (js ''bob'')) 2) 2)
     \<noteq> successElement (field_objs (clearFieldState (example_ready (js ''bob'')) 2) 2)
   \<and> display (nodes (clearFieldState (example_ready (js ''bob'')) 2) 13) = js ''none''
   \<and> display (nodes (clearFieldState (example_ready (js ''bob'')) 2) 14) = js ''none''
   \<and> indicators_exclusive (fst (validateField (clearFieldState (example_ready (js ''bob'')) 2) 2)) 2
   \<and> indicators_exclusive
        (setFieldError (clearFieldState (example_ready (js ''bob'')) 2) 2 (js ''x'')) 2
   \<and> indicators_exclusive (setFieldSuccess (clearFieldState (example_ready (js ''bob'')) 2) 2) 2
   \<and> classes_exclusive (fst (validateField (clearFieldState (example_ready (js ''bob'')) 2) 2)) 2
   \<and> snd (validateField (clearFieldState (example_ready (js ''bob'')) 2) 2)
       = isValid (field_objs (fst (validateField (clearFieldState (example_ready (js ''bob'')) 2) 2)) 2)"
proof -
  let ?s = "example_ready (js ''bob'')"
  let ?c = "clearFieldState ?s 2"
  have fo: "field_objs ?s 2 =
     \<lparr>element = 7, isValid = False, rules = [], errorElement = 13, successElement = 14\<rparr>"
    by (rule example_fields(3))
  have ne: "errorElement (field_objs ?c 2) \<noteq> successElement (field_objs ?c 2)"
    by (simp add: fo)
  have d13: "display (nodes ?c (errorElement (field_objs ?c 2))) = js ''none''"
    using clearFieldState_hides(1)[of ?s 2] by simp
  have d14: "display (nodes ?c (successElement (field_objs ?c 2))) = js ''none''"
    using clearFieldState_hides(2)[of ?s 2] by simp
  from field_operations_exclusive[of ?c 2 "js ''x''"] ne d13 d14
  have "indicators_exclusive (fst (validateField ?c 2)) 2
      \<and> indicators_exclusive (setFieldError ?c 2 (js ''x'')) 2
      \<and> indicators_exclusive (setFieldSuccess ?c 2) 2
      \<and> classes_exclusive (fst (validateField ?c 2)) 2
      \<and> snd (validateField ?c 2) = isValid (field_objs (fst (validateField ?c 2)) 2)"
    by blast
  with ne d13 d14 show ?thesis by (simp add: fo)
qed

text \<open>C10 at the example page, the field without rules holding the empty string.\<close>

theorem field_without_rules_is_valid_witness:
  "getValidationRules example_RegExp
       (nodes (example_ready []) (element (field_objs (example_ready []) 2)))
     = Inr (rules (field_objs (example_ready []) 2))
   \<and> value_prop (nodes (example_ready []) (element (field_objs (example_ready []) 2))) = []
   \<and> rules (field_objs (example_ready []) 2) = []
   \<and> snd (validateField (example_ready []) 2) = True
   \<and> isValid (field_objs (fst (validateField (example_ready []) 2)) 2)
   \<and> success_class \<in> set (classList (nodes (fst (validateField (example_ready []) 2)) 7))
   \<and> display (nodes (fst (validateField (example_ready []) 2)) 14) = js ''block''"
proof -
  let ?s = "example_ready []"
  have fo: "field_objs ?s 2 =
     \<lparr>element = 7, isValid = False, rules = [], errorElement = 13, successElement = 14\<rparr>"
    by (rule example_fields(3))
  have h: "getValidationRules example_RegExp (nodes ?s (element (field_objs ?s 2)))
             = Inr (rules (field_objs ?s 2))"
    by (simp add: fo example_rules)
  have n: "\<not> hasAttribute (nodes ?s (element (field_objs ?s 2))) (js ''required'')"
    "type_prop (nodes ?s (element (field_objs ?s 2))) \<noteq> js ''email''"
    "\<not> hasAttribute (nodes ?s (element (field_objs ?s 2))) (js ''minlength'')"
    "\<not> hasAttribute (nodes ?s (element (field_objs ?s 2))) (js ''pattern'')"
    "field_identifier (nodes ?s (element (field_objs ?s 2))) \<noteq> js ''phone''"
    by (simp_all add: fo example_inputs hasAttribute_def field_identifier_def)
  have v: "value_prop (nodes ?s (element (field_objs ?s 2))) = []"
    by (simp add: fo example_inputs)
  from field_without_rules_is_valid[OF h n] h v show ?thesis
    by (simp add: fo)
qed

end
